theory Spec2Isabelle
  imports Main
begin

text \<open>
  A shallow embedding of the bridge's loader (\<^verbatim>\<open>loader.py\<close>), command executor
  (\<^verbatim>\<open>commands.py\<close>) and hook engine (\<^verbatim>\<open>hooks.py\<close>). Every function keeps the name it has in
  the source, without the leading underscore of the private methods. What the code asks of
  Python's libraries and of the operating system (regular expressions for the hook matchers,
  subprocesses, the file system, the YAML and JSON parsers) is a parameter of the model,
  so a theorem holds for every behaviour of these. Messages printed to the diagnostic output
  are left out.
\<close>

section \<open>Python string primitives used by the bridge\<close>

text \<open>
  Text is modelled as \<^typ>\<open>string\<close> (a list of 8-bit characters), so the model covers
  ASCII text. \<open>is_space\<close> lists the ASCII characters for which Python's \<^verbatim>\<open>str.isspace\<close>
  holds; \<^verbatim>\<open>str.strip()\<close> and the regular-expression class \<^verbatim>\<open>\s\<close> both use that set.
\<close>

definition is_space :: "char \<Rightarrow> bool" where
  "is_space c = (c = CHR '' '' \<or> c = CHR 0x09 \<or> c = CHR 0x0A \<or> c = CHR 0x0B \<or> c = CHR 0x0C
     \<or> c = CHR 0x0D \<or> c = CHR 0x1C \<or> c = CHR 0x1D \<or> c = CHR 0x1E \<or> c = CHR 0x1F)"

definition strip :: "string \<Rightarrow> string" where
  "strip s = rev (dropWhile is_space (rev (dropWhile is_space s)))"

fun startswith :: "string \<Rightarrow> string \<Rightarrow> bool" where
  "startswith s [] = True"
| "startswith [] (p # ps) = False"
| "startswith (c # cs) (p # ps) = (c = p \<and> startswith cs ps)"

text \<open>
  \<^verbatim>\<open>s.replace(old, new)\<close>: one scan from the left; where \<open>old\<close> starts, \<open>new\<close> is emitted and
  the scan resumes behind the occurrence (the emitted text is not scanned again).
\<close>

function replace_from :: "string \<Rightarrow> string \<Rightarrow> string \<Rightarrow> string" where
  "replace_from old new [] = []"
| "replace_from old new (c # cs) =
     (if old \<noteq> [] \<and> startswith (c # cs) old
      then new @ replace_from old new (drop (length old) (c # cs))
      else c # replace_from old new cs)"
  by pat_completeness auto
termination
  by (relation "measure (\<lambda>(old, new, s). length s)") auto

definition str_replace :: "string \<Rightarrow> string \<Rightarrow> string \<Rightarrow> string" where
  "str_replace s old new =
     (if old = [] then new @ concat (map (\<lambda>c. c # new) s) else replace_from old new s)"

fun contains :: "string \<Rightarrow> string \<Rightarrow> bool" where
  "contains [] sub = (sub = [])"
| "contains (c # cs) sub = (startswith (c # cs) sub \<or> contains cs sub)"

definition to_upper :: "char \<Rightarrow> char" where
  "to_upper c = (if 97 \<le> (of_char c :: nat) \<and> (of_char c :: nat) \<le> 122
                 then char_of ((of_char c :: nat) - 32) else c)"

definition upper :: "string \<Rightarrow> string" where
  "upper s = map to_upper s"

fun join :: "string \<Rightarrow> string list \<Rightarrow> string" where
  "join sep [] = []"
| "join sep [x] = x"
| "join sep (x # y # ys) = x @ sep @ join sep (y # ys)"

fun split_on :: "char \<Rightarrow> string \<Rightarrow> string list" where
  "split_on d [] = [[]]"
| "split_on d (c # cs) =
     (if c = d then [] # split_on d cs
      else (case split_on d cs of [] \<Rightarrow> [[c]] | w # ws \<Rightarrow> (c # w) # ws))"

text \<open>Python truthiness of an optional string: \<^verbatim>\<open>None\<close> and \<^verbatim>\<open>""\<close> are falsy.\<close>

fun truthy :: "string option \<Rightarrow> bool" where
  "truthy None = False"
| "truthy (Some s) = (s \<noteq> [])"

text \<open>What an f-string prints for an optional string.\<close>

fun fmt_opt :: "string option \<Rightarrow> string" where
  "fmt_opt None = ''None''"
| "fmt_opt (Some s) = s"

text \<open>The exceptions that leave a function of the bridge, with their messages.\<close>

datatype py_error =
    RuntimeError string
  | AttributeError string
  | TypeError string
  | ValueError string
  | OverflowError string
  | RecursionError string
  | OSError string
  | OtherError string

section \<open>The hook engine (hooks.py)\<close>

datatype HookType =
    PRETOOLUSE | POSTTOOLUSE | POSTTOOLUSEFAILURE | STOP | SESSIONSTART | SESSIONEND
  | SUBAGENTSTART | SUBAGENTSTOP | PERMISSIONREQUEST

fun HookType_value :: "HookType \<Rightarrow> string" where
  "HookType_value PRETOOLUSE = ''PreToolUse''"
| "HookType_value POSTTOOLUSE = ''PostToolUse''"
| "HookType_value POSTTOOLUSEFAILURE = ''PostToolUseFailure''"
| "HookType_value STOP = ''Stop''"
| "HookType_value SESSIONSTART = ''SessionStart''"
| "HookType_value SESSIONEND = ''SessionEnd''"
| "HookType_value SUBAGENTSTART = ''SubagentStart''"
| "HookType_value SUBAGENTSTOP = ''SubagentStop''"
| "HookType_value PERMISSIONREQUEST = ''PermissionRequest''"

datatype HookResult = CONTINUE | ERROR | BLOCK

text \<open>
  \<open>HookContext\<close>; \<open>'j\<close> is the type of the tool input (a JSON-serialisable dictionary).
  The field \<open>project_root\<close> of the context is written \<open>ctx_project_root\<close>, the engine has
  a field of the same name.
\<close>

record 'j HookContext =
  hook_type :: HookType
  tool_name :: string
  tool_input :: 'j
  tool_output :: string
  error :: string
  session_id :: string
  agent_name :: string
  plugin_root :: string
  ctx_project_root :: string

text \<open>\<open>HookConfig\<close>; the field \<open>type\<close> is written \<open>htype\<close>.\<close>

record HookConfig =
  htype :: string
  matcher :: string
  command :: "string option"
  prompt :: "string option"
  agent :: "string option"
  timeout :: int
  once :: bool

text \<open>
  What \<^verbatim>\<open>subprocess.run(..., capture_output=True, text=True, timeout=t)\<close> does: it
  returns a completed process (return code, standard output, standard error), raises
  \<^verbatim>\<open>TimeoutExpired\<close>, or raises another exception (with its message).
\<close>

datatype proc_outcome =
    Completed int string string
  | TimeoutExpired
  | OtherException string

text \<open>The outcome of calling a function supplied by the host: a value, or an exception.\<close>

datatype 'a call = Returned 'a | Raised string

text \<open>
  The library and operating-system calls of the engine, as parameters. \<open>'w\<close> is the state
  of the world outside the process: running a subprocess or a host function reads and
  changes it, so every side effect of a hook is visible in the world it returns.
  \<^item> \<open>re_compile m\<close> is what \<^verbatim>\<open>re\<close> does with the pattern \<open>m\<close> before it matches: it compiles
    it (\<open>Pattern\<close>), raises \<^verbatim>\<open>re.error\<close> (\<open>ReError\<close>), or raises another exception
    (\<open>CompileError\<close>): \<^verbatim>\<open>OverflowError\<close> for a repetition count that is too large,
    \<^verbatim>\<open>RecursionError\<close> for a pattern that is nested too deeply;
  \<^item> \<open>re_match p s\<close>: \<^verbatim>\<open>re.match\<close> with \<^verbatim>\<open>re.IGNORECASE\<close> finds a match at the start of \<open>s\<close>;
  \<^item> \<open>subprocess_run cmd cwd env t w\<close>: the shell command, its working directory, the
    variables set on top of the inherited environment, the timeout.
\<close>

datatype 'p compiled = Pattern 'p | ReError string | CompileError py_error

record ('w, 'j, 'p) platform =
  re_compile :: "string \<Rightarrow> 'p compiled"
  re_match :: "'p \<Rightarrow> string \<Rightarrow> bool"
  json_dumps :: "'j \<Rightarrow> string"
  subprocess_run :: "string \<Rightarrow> string \<Rightarrow> (string \<times> string) list \<Rightarrow> int \<Rightarrow> 'w \<Rightarrow> proc_outcome \<times> 'w"

record ('w, 'j) HookEngine =
  project_root :: string
  hooks :: "string \<rightharpoonup> HookConfig list"
  executed_once_hooks :: "string set"
  prompt_executor :: "(string \<Rightarrow> 'j HookContext \<Rightarrow> 'w \<Rightarrow> string option call \<times> 'w) option"
  agent_executor :: "(string \<Rightarrow> 'j HookContext \<Rightarrow> 'w \<Rightarrow> string option call \<times> 'w) option"

text \<open>
  \<open>_matches\<close> catches \<^verbatim>\<open>re.error\<close> and nothing else: any other exception of \<^verbatim>\<open>re.match\<close> leaves
  it (\<open>Inl\<close>).
\<close>

definition matches :: "('w, 'j, 'p) platform \<Rightarrow> string \<Rightarrow> string \<Rightarrow> py_error + bool" where
  "matches pf m tool =
    (case re_compile pf m of
       Pattern p \<Rightarrow> Inr (re_match pf p tool)
     | ReError e \<Rightarrow> Inr False
     | CompileError e \<Rightarrow> Inl e)"

text \<open>\<^verbatim>\<open>str(context.project_root or self.project_root)\<close>\<close>

definition root_of :: "('w, 'j) HookEngine \<Rightarrow> 'j HookContext \<Rightarrow> string" where
  "root_of eng ctx = (if ctx_project_root ctx \<noteq> [] then ctx_project_root ctx else project_root eng)"

definition substitute_variables ::
  "('w, 'j, 'p) platform \<Rightarrow> ('w, 'j) HookEngine \<Rightarrow> string \<Rightarrow> 'j HookContext \<Rightarrow> string" where
  "substitute_variables pf eng template ctx =
    (let result = template;
         result = str_replace result ''${TOOL_NAME}'' (tool_name ctx);
         result = str_replace result ''$TOOL_NAME'' (tool_name ctx);
         result = str_replace result ''${TOOL_INPUT}'' (json_dumps pf (tool_input ctx));
         result = str_replace result ''$TOOL_INPUT'' (json_dumps pf (tool_input ctx));
         result = str_replace result ''${TOOL_OUTPUT}'' (tool_output ctx);
         result = str_replace result ''$TOOL_OUTPUT'' (tool_output ctx);
         result = str_replace result ''${SESSION_ID}'' (session_id ctx);
         result = str_replace result ''$SESSION_ID'' (session_id ctx);
         result = str_replace result ''${AGENT_NAME}'' (agent_name ctx);
         result = str_replace result ''$AGENT_NAME'' (agent_name ctx);
         result = str_replace result ''${CLAUDE_PLUGIN_ROOT}'' (plugin_root ctx);
         result = str_replace result ''$CLAUDE_PLUGIN_ROOT'' (plugin_root ctx);
         result = str_replace result ''${PROJECT_ROOT}'' (root_of eng ctx);
         result = str_replace result ''$PROJECT_ROOT'' (root_of eng ctx)
     in result)"

text \<open>The variables a command hook exports on top of \<^verbatim>\<open>os.environ\<close>.\<close>

definition hook_env ::
  "('w, 'j, 'p) platform \<Rightarrow> ('w, 'j) HookEngine \<Rightarrow> 'j HookContext \<Rightarrow> (string \<times> string) list" where
  "hook_env pf eng ctx =
    [(''TOOL_NAME'', tool_name ctx),
     (''TOOL_INPUT'', json_dumps pf (tool_input ctx)),
     (''TOOL_OUTPUT'', tool_output ctx),
     (''SESSION_ID'', session_id ctx),
     (''AGENT_NAME'', agent_name ctx),
     (''CLAUDE_PLUGIN_ROOT'', plugin_root ctx),
     (''PROJECT_ROOT'', root_of eng ctx)]"

text \<open>
  The result of a completed hook command, by its return code. The messages the engine
  prints to its diagnostic output are not part of the model.
\<close>

definition result_of_returncode :: "int \<Rightarrow> HookResult" where
  "result_of_returncode rc = (if rc = 0 then CONTINUE else if rc = 2 then BLOCK else ERROR)"

definition execute_command_hook ::
  "('w, 'j, 'p) platform \<Rightarrow> ('w, 'j) HookEngine \<Rightarrow> HookConfig \<Rightarrow> 'j HookContext \<Rightarrow> 'w
     \<Rightarrow> HookResult \<times> 'w" where
  "execute_command_hook pf eng hook ctx w =
    (if \<not> truthy (command hook) then (ERROR, w)
     else
       (case subprocess_run pf (substitute_variables pf eng (the (command hook)) ctx)
               (project_root eng) (hook_env pf eng ctx) (timeout hook) w of
          (Completed rc out err, w') \<Rightarrow> (result_of_returncode rc, w')
        | (TimeoutExpired, w') \<Rightarrow> (ERROR, w')
        | (OtherException e, w') \<Rightarrow> (ERROR, w')))"

text \<open>\<^verbatim>\<open>result and "BLOCK" in result.upper()\<close>\<close>

definition block_signal :: "string option \<Rightarrow> bool" where
  "block_signal r = (case r of None \<Rightarrow> False | Some s \<Rightarrow> s \<noteq> [] \<and> contains (upper s) ''BLOCK'')"

definition execute_prompt_hook ::
  "('w, 'j, 'p) platform \<Rightarrow> ('w, 'j) HookEngine \<Rightarrow> HookConfig \<Rightarrow> 'j HookContext \<Rightarrow> 'w
     \<Rightarrow> HookResult \<times> 'w" where
  "execute_prompt_hook pf eng hook ctx w =
    (if \<not> truthy (prompt hook) then (ERROR, w)
     else
       (case prompt_executor eng of
          None \<Rightarrow> (ERROR, w)
        | Some ex \<Rightarrow>
            (case ex (substitute_variables pf eng (the (prompt hook)) ctx) ctx w of
               (Returned r, w') \<Rightarrow> (if block_signal r then BLOCK else CONTINUE, w')
             | (Raised e, w') \<Rightarrow> (ERROR, w'))))"

definition execute_agent_hook ::
  "('w, 'j) HookEngine \<Rightarrow> HookConfig \<Rightarrow> 'j HookContext \<Rightarrow> 'w \<Rightarrow> HookResult \<times> 'w" where
  "execute_agent_hook eng hook ctx w =
    (if \<not> truthy (agent hook) then (ERROR, w)
     else
       (case agent_executor eng of
          None \<Rightarrow> (ERROR, w)
        | Some ex \<Rightarrow>
            (case ex (the (agent hook)) ctx w of
               (Returned r, w') \<Rightarrow> (if block_signal r then BLOCK else CONTINUE, w')
             | (Raised e, w') \<Rightarrow> (ERROR, w'))))"

definition execute_hook ::
  "('w, 'j, 'p) platform \<Rightarrow> ('w, 'j) HookEngine \<Rightarrow> HookConfig \<Rightarrow> 'j HookContext \<Rightarrow> 'w
     \<Rightarrow> HookResult \<times> 'w" where
  "execute_hook pf eng hook ctx w =
    (if htype hook = ''command'' then execute_command_hook pf eng hook ctx w
     else if htype hook = ''prompt'' then execute_prompt_hook pf eng hook ctx w
     else if htype hook = ''agent'' then execute_agent_hook eng hook ctx w
     else (ERROR, w))"

text \<open>\<^verbatim>\<open>hook.command or hook.prompt or hook.agent\<close>\<close>

definition payload :: "HookConfig \<Rightarrow> string option" where
  "payload hook =
    (if truthy (command hook) then command hook
     else if truthy (prompt hook) then prompt hook
     else agent hook)"

definition hook_id :: "string \<Rightarrow> HookConfig \<Rightarrow> string" where
  "hook_id type_str hook = type_str @ '':'' @ matcher hook @ '':'' @ fmt_opt (payload hook)"

text \<open>
  The loop of \<open>execute\<close> over the hooks of one event type, in registration order. Its state
  is the result so far, the set of once-hooks already run, and the world. The engine's
  other fields do not change during the loop. The loop ends with a result (\<open>Inr\<close>), or with
  the exception that left \<open>_matches\<close> (\<open>Inl\<close>); the set and the world are then as the hooks
  before left them.
\<close>

fun run_hooks ::
  "('w, 'j, 'p) platform \<Rightarrow> ('w, 'j) HookEngine \<Rightarrow> string \<Rightarrow> 'j HookContext \<Rightarrow> HookConfig list
     \<Rightarrow> HookResult \<Rightarrow> string set \<Rightarrow> 'w \<Rightarrow> (py_error + HookResult) \<times> string set \<times> 'w" where
  "run_hooks pf eng type_str ctx [] result fired w = (Inr result, fired, w)"
| "run_hooks pf eng type_str ctx (hook # rest) result fired w =
    (case matches pf (matcher hook) (tool_name ctx) of
       Inl e \<Rightarrow> (Inl e, fired, w)
     | Inr False \<Rightarrow> run_hooks pf eng type_str ctx rest result fired w
     | Inr True \<Rightarrow>
         if once hook \<and> hook_id type_str hook \<in> fired then
           run_hooks pf eng type_str ctx rest result fired w
         else
           (case execute_hook pf eng hook ctx w of
              (hook_result, w') \<Rightarrow>
                (let fired' = (if once hook then insert (hook_id type_str hook) fired else fired)
                 in if hook_result = BLOCK then (Inr BLOCK, fired', w')
                    else if hook_result = ERROR then run_hooks pf eng type_str ctx rest ERROR fired' w'
                    else run_hooks pf eng type_str ctx rest result fired' w')))"

definition execute ::
  "('w, 'j, 'p) platform \<Rightarrow> ('w, 'j) HookEngine \<Rightarrow> HookType \<Rightarrow> 'j HookContext \<Rightarrow> 'w
     \<Rightarrow> (py_error + HookResult) \<times> ('w, 'j) HookEngine \<times> 'w" where
  "execute pf eng ht ctx w =
    (case hooks eng (HookType_value ht) of
       None \<Rightarrow> (Inr CONTINUE, eng, w)
     | Some hs \<Rightarrow>
         (case run_hooks pf eng (HookType_value ht) ctx hs CONTINUE (executed_once_hooks eng) w of
            (result, fired, w') \<Rightarrow> (result, eng\<lparr>executed_once_hooks := fired\<rparr>, w')))"

subsection \<open>Test doubles for the platform and the hook engine\<close>

text \<open>
  A platform whose world is the list of the shell commands run so far, so that a command
  that ran has left its mark; \<open>toy_shell\<close> gives the outcome of each command. Its pattern
  language is a toy: \<open>(\<close> is rejected with \<^verbatim>\<open>re.error\<close>, the repetition count of
  \<open>a{99999999999999999999}\<close> overflows, \<open>.*\<close> matches every name, any other pattern matches the
  names that start with it.
\<close>

definition toy_shell :: "string \<Rightarrow> proc_outcome" where
  "toy_shell cmd =
    (if cmd = ''exit 2'' then Completed 2 [] ''denied\<newline>''
     else if cmd = ''exit 1'' then Completed 1 [] ''boom\<newline>''
     else if cmd = ''make'' then Completed 0 ''built\<newline>'' ''warning: deprecated\<newline>''
     else if cmd = ''date'' then Completed 0 ''Monday\<newline>'' []
     else if cmd = ''sleep 60'' then TimeoutExpired
     else Completed 0 [] [])"

definition toy_platform :: "(string list, unit, string) platform" where
  "toy_platform =
    \<lparr> re_compile = (\<lambda>m. if m = ''('' then ReError ''missing ), unterminated subpattern''
                         else if m = ''a{99999999999999999999}''
                         then CompileError (OverflowError ''the repetition number is too large'')
                         else Pattern m),
      re_match = (\<lambda>p s. p = ''.*'' \<or> startswith s p),
      json_dumps = (\<lambda>j. ''{}''),
      subprocess_run = (\<lambda>cmd cwd env t w. (toy_shell cmd, w @ [cmd])) \<rparr>"

definition toy_engine :: "HookConfig list \<Rightarrow> (string list, unit) HookEngine" where
  "toy_engine hs =
    \<lparr> project_root = ''/proj'', hooks = [''PreToolUse'' \<mapsto> hs], executed_once_hooks = {},
      prompt_executor = None, agent_executor = None \<rparr>"

definition toy_context :: "string \<Rightarrow> unit HookContext" where
  "toy_context tool =
    \<lparr> hook_type = PRETOOLUSE, tool_name = tool, tool_input = (), tool_output = [], error = [],
      session_id = [], agent_name = [], plugin_root = [], ctx_project_root = [] \<rparr>"

definition command_hook :: "string \<Rightarrow> string \<Rightarrow> bool \<Rightarrow> HookConfig" where
  "command_hook m c b =
    \<lparr> htype = ''command'', matcher = m, command = Some c, prompt = None, agent = None,
      timeout = 600, once = b \<rparr>"

section \<open>Components (loader.py): the data model\<close>

text \<open>
  The values \<^verbatim>\<open>yaml.safe_load\<close> and \<^verbatim>\<open>json.loads\<close> return: \<^verbatim>\<open>None\<close>, booleans, integers,
  strings, lists and dictionaries (as association lists, in the order of the document).
  Other scalars, such as floats and dates, are not modelled.
\<close>

datatype yaml =
    YNull
  | YBool bool
  | YInt int
  | YStr string
  | YSeq "yaml list"
  | YMap "(yaml \<times> yaml) list"

text \<open>
  \<open>Command\<close>; \<open>'p\<close> is the type of paths. A field read from the front matter with
  \<^verbatim>\<open>frontmatter.get\<close> holds whatever value the document gives, so its type is \<^typ>\<open>yaml\<close>.
  The fields \<open>hooks\<close>, \<open>context\<close> and \<open>agent\<close> are written \<open>cmd_hooks\<close>, \<open>cmd_context\<close> and
  \<open>cmd_agent\<close>.
\<close>

record 'p Command =
  name :: string
  path :: 'p
  description :: yaml
  argument_hint :: yaml
  allowed_tools :: "string list"
  disallowed_tools :: "string list"
  model :: yaml
  cmd_hooks :: yaml
  content :: string
  scope :: string
  namespace :: string
  cmd_context :: yaml
  cmd_agent :: yaml

text \<open>
  The path and file-system calls of \<^verbatim>\<open>pathlib\<close>, as parameters, over a file system that does
  not change while a prompt is prepared or a load pass runs.
  \<^item> \<open>path_join d s\<close> is \<^verbatim>\<open>d / s\<close>, \<open>path_of s\<close> is \<^verbatim>\<open>Path(s)\<close>, \<open>path_str p\<close> is \<^verbatim>\<open>str(p)\<close>;
  \<^item> \<open>expanduser p\<close> is \<open>None\<close> where \<^verbatim>\<open>Path.expanduser\<close> raises \<^verbatim>\<open>RuntimeError\<close>: the path
    starts with \<^verbatim>\<open>~\<close> or \<^verbatim>\<open>~user\<close> and no home directory can be determined for it;
  \<^item> \<open>exists p\<close>, \<open>is_file p\<close> and \<open>is_dir p\<close> are the probes \<^verbatim>\<open>p.exists()\<close>, \<^verbatim>\<open>p.is_file()\<close> and
    \<^verbatim>\<open>p.is_dir()\<close>: \<open>Inr b\<close> for the answer \<open>b\<close>, and \<open>Inl msg\<close> where the probe raises \<^verbatim>\<open>OSError\<close>
    with the text \<open>msg\<close>. A probe answers \<^verbatim>\<open>False\<close> for a missing entry and passes on the other
    errors of \<^verbatim>\<open>stat\<close>, such as a name that is too long or a directory that may not be
    searched;
  \<^item> \<open>read_text p\<close> is \<open>Inl msg\<close> where reading or decoding the file raises an exception
    whose text is \<open>msg\<close>, and \<open>Inr text\<close> otherwise;
  \<^item> \<open>iterdir d\<close> is \<open>Inl msg\<close> where listing \<open>d\<close> raises \<^verbatim>\<open>OSError\<close> (it is not a directory, or
    it cannot be read); \<open>rglob_md d\<close> and \<open>glob_md d\<close> are \<^verbatim>\<open>d.rglob("*.md")\<close> and
    \<^verbatim>\<open>d.glob("*.md")\<close>, in the order in which the file system gives the entries;
  \<^item> \<open>stem p\<close> and \<open>path_name p\<close> are \<^verbatim>\<open>p.stem\<close> and \<^verbatim>\<open>p.name\<close>; \<open>rel_parent f d\<close> is
    \<^verbatim>\<open>str(f.relative_to(d).parent)\<close> for a file \<open>f\<close> found under \<open>d\<close>, which is \<^verbatim>\<open>"."\<close> for a file
    that lies in \<open>d\<close> itself.
\<close>

record 'p filesystem =
  path_join :: "'p \<Rightarrow> string \<Rightarrow> 'p"
  path_of :: "string \<Rightarrow> 'p"
  path_str :: "'p \<Rightarrow> string"
  expanduser :: "'p \<Rightarrow> 'p option"
  exists :: "'p \<Rightarrow> string + bool"
  is_file :: "'p \<Rightarrow> string + bool"
  read_text :: "'p \<Rightarrow> string + string"
  is_dir :: "'p \<Rightarrow> string + bool"
  iterdir :: "'p \<Rightarrow> string + 'p list"
  rglob_md :: "'p \<Rightarrow> 'p list"
  glob_md :: "'p \<Rightarrow> 'p list"
  stem :: "'p \<Rightarrow> string"
  path_name :: "'p \<Rightarrow> string"
  rel_parent :: "'p \<Rightarrow> 'p \<Rightarrow> string"

section \<open>The command executor (commands.py)\<close>

text \<open>The positional placeholders \<^verbatim>\<open>f"${i}"\<close> for \<open>i\<close> from 1 to 9.\<close>

definition positional :: "string list" where
  "positional = [''$1'', ''$2'', ''$3'', ''$4'', ''$5'', ''$6'', ''$7'', ''$8'', ''$9'']"

definition substitute_arguments :: "string \<Rightarrow> string list \<Rightarrow> string" where
  "substitute_arguments text arguments =
    (let all_args = join '' '' arguments;
         text = str_replace text ''$ARGUMENTS'' all_args;
         text = fold (\<lambda>(ph, arg) t. str_replace t ph arg) (zip positional (take 9 arguments)) text;
         text = fold (\<lambda>ph t. str_replace t ph []) positional text
     in text)"

text \<open>
  The pattern \<^verbatim>\<open>@([^\s@]+)\<close> at the start of a text: the reference (the longest run of
  characters that are neither white space nor \<^verbatim>\<open>@\<close>, not empty) and the text behind it.
\<close>

definition ref_char :: "char \<Rightarrow> bool" where
  "ref_char c = (\<not> is_space c \<and> c \<noteq> CHR ''@'')"

fun match_reference :: "string \<Rightarrow> (string \<times> string) option" where
  "match_reference [] = None"
| "match_reference (c # cs) =
     (if c = CHR ''@'' \<and> takeWhile ref_char cs \<noteq> []
      then Some (takeWhile ref_char cs, dropWhile ref_char cs) else None)"

text \<open>
  The callback of the file references. The two candidates are probed outside the \<^verbatim>\<open>try\<close>
  block, which holds \<^verbatim>\<open>read_text\<close> alone: an \<^verbatim>\<open>OSError\<close> of a probe and the \<^verbatim>\<open>RuntimeError\<close> of
  \<^verbatim>\<open>expanduser\<close> leave the callback. \<^verbatim>\<open>full_path.exists() and full_path.is_file()\<close> asks
  \<^verbatim>\<open>is_file\<close> only of a path that exists.
\<close>

definition replace_reference :: "'p filesystem \<Rightarrow> 'p \<Rightarrow> string \<Rightarrow> py_error + string" where
  "replace_reference fs root file_path =
    (case exists fs (path_join fs root file_path) of
       Inl e \<Rightarrow> Inl (OSError e)
     | Inr found \<Rightarrow>
         (case (if \<not> found then expanduser fs (path_of fs file_path)
                else Some (path_join fs root file_path)) of
            None \<Rightarrow> Inl (RuntimeError ''Could not determine home directory.'')
          | Some full_path \<Rightarrow>
              (case exists fs full_path of
                 Inl e \<Rightarrow> Inl (OSError e)
               | Inr found \<Rightarrow>
                   if \<not> found then Inr (''[File not found: '' @ file_path @ '']'')
                   else (case is_file fs full_path of
                           Inl e \<Rightarrow> Inl (OSError e)
                         | Inr regular \<Rightarrow>
                             if \<not> regular then Inr (''[File not found: '' @ file_path @ '']'')
                             else (case read_text fs full_path of
                                     Inr file_content \<Rightarrow>
                                       Inr (''\<newline>--- Content of '' @ file_path @ '' ---\<newline>''
                                            @ file_content
                                            @ ''\<newline>--- End of '' @ file_path @ '' ---\<newline>'')
                                   | Inl e \<Rightarrow>
                                       Inr (''[Error reading '' @ file_path @ '': '' @ e @ '']''))))))"

text \<open>
  \<^verbatim>\<open>re.sub(pattern, replace_reference, content)\<close>: the matches are found from the left, they do
  not overlap, and a replacement is not scanned again. An exception that leaves the callback
  leaves the whole call.
\<close>

function resolve_file_references :: "'p filesystem \<Rightarrow> 'p \<Rightarrow> string \<Rightarrow> py_error + string" where
  "resolve_file_references fs root [] = Inr []"
| "resolve_file_references fs root (c # cs) =
     (case match_reference (c # cs) of
        Some (file_path, rest) \<Rightarrow>
          (case replace_reference fs root file_path of
             Inl e \<Rightarrow> Inl e
           | Inr text \<Rightarrow>
               (case resolve_file_references fs root rest of
                  Inl e \<Rightarrow> Inl e
                | Inr r \<Rightarrow> Inr (text @ r)))
      | None \<Rightarrow>
          (case resolve_file_references fs root cs of
             Inl e \<Rightarrow> Inl e
           | Inr r \<Rightarrow> Inr (c # r)))"
  by pat_completeness auto
termination
proof (relation "measure (\<lambda>(fs, root, s). length s)")
  show "wf (measure (\<lambda>(fs :: 'p filesystem, root :: 'p, s). length s))"
    by simp
next
  fix fs :: "'p filesystem" and root :: 'p and c cs x2 x y
  assume "match_reference (c # cs) = Some x2" and "(x, y) = x2"
  then have "y = dropWhile ref_char cs"
    by (auto split: if_splits)
  then have "length y \<le> length cs"
    by (simp add: length_dropWhile_le)
  then show "((fs, root, y), fs, root, c # cs) \<in> measure (\<lambda>(fs, root, s). length s)"
    by simp
next
  fix fs :: "'p filesystem" and root :: 'p and c :: char and cs :: string
  show "((fs, root, cs), fs, root, c # cs) \<in> measure (\<lambda>(fs, root, s). length s)"
    by simp
qed

text \<open>
  The pattern \<^verbatim>\<open>!`([^`]+)`\<close> at the start of a text: the command (the run of characters up to
  the next backtick, not empty) and the text behind the closing backtick.
\<close>

definition not_backtick :: "char \<Rightarrow> bool" where
  "not_backtick c = (c \<noteq> CHR 0x60)"

fun match_inline :: "string \<Rightarrow> (string \<times> string) option" where
  "match_inline (a # b # cs) =
     (if a = CHR ''!'' \<and> b = CHR 0x60 \<and> takeWhile not_backtick cs \<noteq> []
         \<and> dropWhile not_backtick cs \<noteq> []
      then Some (takeWhile not_backtick cs, tl (dropWhile not_backtick cs)) else None)"
| "match_inline cs = None"

text \<open>
  The callback of the inline commands. The subprocess inherits the environment, runs in the
  project root and has 30 seconds.
\<close>

definition execute_and_replace ::
  "('w, 'j, 'r) platform \<Rightarrow> string \<Rightarrow> string \<Rightarrow> 'w \<Rightarrow> string \<times> 'w" where
  "execute_and_replace pf cwd cmd w =
    (case subprocess_run pf cmd cwd [] 30 w of
       (Completed returncode out err, w') \<Rightarrow>
         (let output = strip out;
              output = (if returncode \<noteq> 0 \<and> err \<noteq> []
                        then output @ ''\<newline>[stderr: '' @ strip err @ '']'' else output)
          in (if output \<noteq> [] then output else ''[no output]'', w'))
     | (TimeoutExpired, w') \<Rightarrow> (''[Command timed out: '' @ cmd @ '']'', w')
     | (OtherException e, w') \<Rightarrow>
         (''[Error executing '' @ [CHR 0x27] @ cmd @ [CHR 0x27] @ '': '' @ e @ '']'', w'))"

function execute_inline_bash ::
  "('w, 'j, 'r) platform \<Rightarrow> string \<Rightarrow> string \<Rightarrow> 'w \<Rightarrow> string \<times> 'w" where
  "execute_inline_bash pf cwd [] w = ([], w)"
| "execute_inline_bash pf cwd (c # cs) w =
     (case match_inline (c # cs) of
        Some (cmd, rest) \<Rightarrow>
          (case execute_and_replace pf cwd cmd w of
             (text, w') \<Rightarrow>
               (case execute_inline_bash pf cwd rest w' of (r, w'') \<Rightarrow> (text @ r, w'')))
      | None \<Rightarrow>
          (case execute_inline_bash pf cwd cs w of (r, w') \<Rightarrow> (c # r, w')))"
  by pat_completeness auto
termination
proof (relation "measure (\<lambda>(pf, cwd, s, w). length s)")
  show "wf (measure (\<lambda>(pf :: ('w, 'j, 'r) platform, cwd :: string, s :: string, w :: 'w). length s))"
    by simp
next
  fix pf :: "('w, 'j, 'r) platform" and cwd :: string and c cs and w :: 'w and x2 x y xa ya
  assume m: "match_inline (c # cs) = Some x2" and "(x, y) = x2"
  then have "\<exists>t. c # cs = CHR ''!'' # CHR 0x60 # t \<and> y = tl (dropWhile not_backtick t)"
    by (cases cs) (auto split: if_splits)
  then obtain t where t: "cs = CHR 0x60 # t" "y = tl (dropWhile not_backtick t)"
    by auto
  have "length y \<le> length t"
    using t(2) length_dropWhile_le [of not_backtick t] by simp
  then show "((pf, cwd, y, ya), pf, cwd, c # cs, w) \<in> measure (\<lambda>(pf, cwd, s, w). length s)"
    using t(1) by simp
next
  fix pf :: "('w, 'j, 'r) platform" and cwd :: string and c :: char and cs :: string and w :: 'w
  show "((pf, cwd, cs, w), pf, cwd, c # cs, w) \<in> measure (\<lambda>(pf, cwd, s, w). length s)"
    by simp
qed

definition prepare_prompt ::
  "('w, 'j, 'r) platform \<Rightarrow> 'p filesystem \<Rightarrow> 'p \<Rightarrow> 'p Command \<Rightarrow> string list \<Rightarrow> 'w
     \<Rightarrow> py_error + (string \<times> 'w)" where
  "prepare_prompt pf fs root cmd arguments w =
    (let text = content cmd;
         text = substitute_arguments text arguments
     in case resolve_file_references fs root text of
          Inl e \<Rightarrow> Inl e
        | Inr text \<Rightarrow> Inr (execute_inline_bash pf (path_str fs root) text w))"

text \<open>
  A text is clean for a set of digits when no two dollar signs are adjacent in it and no
  dollar sign is followed by a digit of the set.
\<close>

definition clean :: "char set \<Rightarrow> string \<Rightarrow> bool" where
  "clean D s = (\<not> contains s ''$$'' \<and> (\<forall>b\<in>D. \<not> contains s [CHR ''$'', b]))"

section \<open>The loader (loader.py)\<close>

subsection \<open>Values read from documents\<close>

text \<open>
  What \<^verbatim>\<open>yaml.safe_load\<close> does with a text: it returns a value, raises \<^verbatim>\<open>yaml.YAMLError\<close> (the
  class of the parser's own errors), or raises another exception. \<^verbatim>\<open>json.loads\<close> returns a
  value or raises (\<open>None\<close>). \<open>py_str\<close> is the builtin \<^verbatim>\<open>str\<close> on a value that is not a string.
\<close>

datatype yaml_result = Loaded yaml | YAMLError string | LoadFailure py_error

record codecs =
  yaml_safe_load :: "string \<Rightarrow> yaml_result"
  json_loads :: "string \<Rightarrow> yaml option"
  py_str :: "yaml \<Rightarrow> string"

text \<open>Python's truth value of a value.\<close>

fun py_bool :: "yaml \<Rightarrow> bool" where
  "py_bool YNull = False"
| "py_bool (YBool b) = b"
| "py_bool (YInt i) = (i \<noteq> 0)"
| "py_bool (YStr s) = (s \<noteq> [])"
| "py_bool (YSeq xs) = (xs \<noteq> [])"
| "py_bool (YMap m) = (m \<noteq> [])"

text \<open>
  Dictionary keys: \<^verbatim>\<open>True\<close> and \<^verbatim>\<open>1\<close> (and \<^verbatim>\<open>False\<close> and \<^verbatim>\<open>0\<close>) are the same key; lists and
  dictionaries cannot be keys (\<^verbatim>\<open>TypeError\<close>).
\<close>

fun norm_key :: "yaml \<Rightarrow> yaml" where
  "norm_key (YBool b) = YInt (if b then 1 else 0)"
| "norm_key v = v"

fun hashable :: "yaml \<Rightarrow> bool" where
  "hashable (YSeq xs) = False"
| "hashable (YMap m) = False"
| "hashable v = True"

text \<open>\<^verbatim>\<open>d.get(k, default)\<close> on a dictionary.\<close>

definition dict_get :: "(yaml \<times> yaml) list \<Rightarrow> yaml \<Rightarrow> yaml \<Rightarrow> yaml" where
  "dict_get m k d =
    (case find (\<lambda>(k', v). norm_key k' = norm_key k) m of Some (k', v) \<Rightarrow> v | None \<Rightarrow> d)"

subsection \<open>Front matter\<close>

text \<open>
  The pattern \<^verbatim>\<open>^---\s*\n(.*?)\n---\s*\n(.*)\<close> with \<^verbatim>\<open>re.DOTALL\<close>, matched at the start of the
  document, as the backtracking matcher of \<^verbatim>\<open>re\<close> runs it.

  \<open>newline_splits s\<close> lists, for every newline in the white space that \<open>s\<close> starts with, the
  text behind that newline: the ways in which \<^verbatim>\<open>\s*\n\<close> matches at the start of \<open>s\<close>, the shortest
  first. \<^verbatim>\<open>\s*\<close> is greedy, so the matcher tries them from the last to the first.
\<close>

fun newline_splits :: "string \<Rightarrow> string list" where
  "newline_splits [] = []"
| "newline_splits (c # cs) =
     (if c = CHR 0x0A then cs # newline_splits cs
      else if is_space c then newline_splits cs
      else [])"

text \<open>
  \<^verbatim>\<open>\n---\s*\n(.*)\<close> at the start of \<open>s\<close>: the body is the text behind the last newline of the
  white space after the dashes.
\<close>

definition closing_at :: "string \<Rightarrow> string option" where
  "closing_at s =
    (if startswith s ''\<newline>---'' then
       (case newline_splits (drop 4 s) of [] \<Rightarrow> None | x # xs \<Rightarrow> Some (last (x # xs)))
     else None)"

text \<open>\<^verbatim>\<open>(.*?)\<close> is lazy: the header is the shortest text behind which the closing part matches.\<close>

fun find_closing :: "string \<Rightarrow> (string \<times> string) option" where
  "find_closing [] = None"
| "find_closing (c # cs) =
     (case closing_at (c # cs) of
        Some body \<Rightarrow> Some ([], body)
      | None \<Rightarrow>
          (case find_closing cs of
             None \<Rightarrow> None
           | Some (header, body) \<Rightarrow> Some (c # header, body)))"

fun first_match :: "string list \<Rightarrow> (string \<times> string) option" where
  "first_match [] = None"
| "first_match (r # rs) =
     (case find_closing r of Some m \<Rightarrow> Some m | None \<Rightarrow> first_match rs)"

definition match_frontmatter :: "string \<Rightarrow> (string \<times> string) option" where
  "match_frontmatter text =
    (if startswith text ''---'' then first_match (rev (newline_splits (drop 3 text))) else None)"

definition parse_frontmatter :: "codecs \<Rightarrow> string \<Rightarrow> py_error + (yaml \<times> string)" where
  "parse_frontmatter cd text =
    (case match_frontmatter text of
       Some (header, body) \<Rightarrow>
         (case yaml_safe_load cd header of
            Loaded v \<Rightarrow> Inr (if py_bool v then v else YMap [], body)
          | YAMLError e \<Rightarrow> Inr (YMap [], text)
          | LoadFailure e \<Rightarrow> Inl e)
     | None \<Rightarrow> Inr (YMap [], text))"

text \<open>
  A document begins with a delimiter line when its first line is three dashes followed by
  nothing but white space.
\<close>

definition begins_with_delimiter_line :: "string \<Rightarrow> bool" where
  "begins_with_delimiter_line text =
    (startswith text ''---'' \<and>
     startswith (dropWhile (\<lambda>c. is_space c \<and> c \<noteq> CHR 0x0A) (drop 3 text)) ''\<newline>'')"

subsection \<open>Tool lists and hooks of the front matter\<close>

definition str_value :: "codecs \<Rightarrow> yaml \<Rightarrow> string" where
  "str_value cd v = (case v of YStr s \<Rightarrow> s | _ \<Rightarrow> py_str cd v)"

definition parse_allowed_tools :: "codecs \<Rightarrow> yaml \<Rightarrow> string list" where
  "parse_allowed_tools cd tools_value =
    (case tools_value of
       YNull \<Rightarrow> []
     | YStr s \<Rightarrow> map strip (filter (\<lambda>t. strip t \<noteq> []) (split_on CHR '','' s))
     | YSeq items \<Rightarrow>
         concat (map (\<lambda>item. case item of
                        YStr s \<Rightarrow> [strip s]
                      | YSeq sub \<Rightarrow> map (\<lambda>i. strip (str_value cd i)) sub
                      | _ \<Rightarrow> []) items)
     | _ \<Rightarrow> [])"

text \<open>\<^verbatim>\<open>result[event_type].append(hook)\<close>, with a new list for a new key.\<close>

fun append_hook :: "(yaml \<times> yaml) list \<Rightarrow> yaml \<Rightarrow> yaml \<Rightarrow> (yaml \<times> yaml) list" where
  "append_hook [] k hook = [(k, YSeq [hook])]"
| "append_hook ((k', v) # rest) k hook =
     (if norm_key k' = norm_key k
      then (k', (case v of YSeq hs \<Rightarrow> YSeq (hs @ [hook]) | _ \<Rightarrow> v)) # rest
      else (k', v) # append_hook rest k hook)"

fun group_hooks :: "yaml list \<Rightarrow> (yaml \<times> yaml) list \<Rightarrow> py_error + (yaml \<times> yaml) list" where
  "group_hooks [] result = Inr result"
| "group_hooks (hook # rest) result =
     (case hook of
        YMap m \<Rightarrow>
          (let event_type = dict_get m (YStr ''type'') (YStr ''PreToolUse'')
           in if hashable event_type then group_hooks rest (append_hook result event_type hook)
              else Inl (TypeError ''unhashable type''))
      | _ \<Rightarrow> Inl (AttributeError ''get''))"

definition parse_hooks_from_frontmatter :: "yaml \<Rightarrow> py_error + yaml" where
  "parse_hooks_from_frontmatter hooks_value =
    (case hooks_value of
       YNull \<Rightarrow> Inr (YMap [])
     | YMap m \<Rightarrow> Inr (YMap m)
     | YSeq hs \<Rightarrow> (case group_hooks hs [] of Inl e \<Rightarrow> Inl e | Inr result \<Rightarrow> Inr (YMap result))
     | _ \<Rightarrow> Inr (YMap []))"

subsection \<open>The registry\<close>

text \<open>
  \<open>Subagent\<close>, \<open>Skill\<close> and \<open>Plugin\<close>, with their fields prefixed \<open>sa_\<close>, \<open>sk_\<close> and \<open>pl_\<close>; the
  fields \<open>hooks\<close> and \<open>executed_once_hooks\<close> of \<open>BridgeRegistry\<close> are prefixed \<open>reg_\<close>.
\<close>

record 'p Subagent =
  sa_name :: yaml
  sa_path :: 'p
  sa_description :: yaml
  sa_tools :: "string list"
  sa_disallowed_tools :: "string list"
  sa_model :: yaml
  sa_permission_mode :: yaml
  sa_hooks :: yaml
  sa_skills :: yaml
  sa_prompt :: string
  sa_scope :: string

record 'p Skill =
  sk_name :: yaml
  sk_path :: 'p
  sk_description :: yaml
  sk_allowed_tools :: "string list"
  sk_context_mode :: yaml
  sk_user_invocable :: yaml
  sk_hooks :: yaml
  sk_content :: string
  sk_supporting_files :: "'p list"
  sk_agent :: yaml

record 'p Plugin =
  pl_name :: yaml
  pl_path :: 'p
  pl_version :: yaml
  pl_description :: yaml
  pl_commands :: "'p Command list"
  pl_agents :: "'p Subagent list"
  pl_skills :: "'p Skill list"
  pl_hooks :: yaml
  pl_mcp_config :: "yaml option"

record 'p BridgeRegistry =
  commands :: "string \<rightharpoonup> 'p Command"
  subagents :: "yaml \<rightharpoonup> 'p Subagent"
  skills :: "yaml \<rightharpoonup> 'p Skill"
  plugins :: "yaml \<rightharpoonup> 'p Plugin"
  reg_hooks :: "yaml \<rightharpoonup> yaml list"
  reg_executed_once_hooks :: "string set"

definition empty_registry :: "'p BridgeRegistry" where
  "empty_registry =
    \<lparr> commands = Map.empty, subagents = Map.empty, skills = Map.empty, plugins = Map.empty,
      reg_hooks = Map.empty, reg_executed_once_hooks = {} \<rparr>"

subsection \<open>Steps of a load pass\<close>

text \<open>
  The loading methods work on the registry of the loader. A method is a step: from a
  registry it returns (\<open>Normal\<close>) or raises (\<open>Exception e\<close>), and either way the registry is as
  the step left it.
  \<^item> \<open>then_step s1 s2\<close> is \<open>s1\<close> followed by \<open>s2\<close>; an exception of \<open>s1\<close> ends the sequence;
  \<^item> \<open>probe_step b s1 s2\<close> is \<^verbatim>\<open>if b: s1 else: s2\<close> for the answer \<open>b\<close> of a probe of the file
    system, which is \<open>Inl msg\<close> where the probe raises \<^verbatim>\<open>OSError\<close>;
  \<^item> \<open>for_each f xs\<close> is the loop \<^verbatim>\<open>for x in xs: f(x)\<close>;
  \<^item> \<open>catch_step s\<close> is \<^verbatim>\<open>try: s except Exception: print(...)\<close>: it returns, with the registry
    as \<open>s\<close> left it.
\<close>

datatype outcome = Normal | Exception py_error

type_synonym 'p step = "'p BridgeRegistry \<Rightarrow> outcome \<times> 'p BridgeRegistry"

definition then_step :: "'p step \<Rightarrow> 'p step \<Rightarrow> 'p step" where
  "then_step s1 s2 reg =
    (case s1 reg of (Normal, reg') \<Rightarrow> s2 reg' | (Exception e, reg') \<Rightarrow> (Exception e, reg'))"

definition raise_step :: "py_error \<Rightarrow> 'p step" where
  "raise_step e reg = (Exception e, reg)"

definition do_step :: "('p BridgeRegistry \<Rightarrow> 'p BridgeRegistry) \<Rightarrow> 'p step" where
  "do_step f reg = (Normal, f reg)"

definition skip_step :: "'p step" where
  "skip_step reg = (Normal, reg)"

definition probe_step :: "string + bool \<Rightarrow> 'p step \<Rightarrow> 'p step \<Rightarrow> 'p step" where
  "probe_step b s1 s2 =
    (case b of Inl e \<Rightarrow> raise_step (OSError e) | Inr found \<Rightarrow> if found then s1 else s2)"

fun for_each :: "('a \<Rightarrow> 'p step) \<Rightarrow> 'a list \<Rightarrow> 'p step" where
  "for_each f [] = skip_step"
| "for_each f (x # xs) = then_step (f x) (for_each f xs)"

definition catch_step :: "'p step \<Rightarrow> 'p step" where
  "catch_step s reg = (Normal, snd (s reg))"

subsection \<open>Loading commands, subagents and skills\<close>

text \<open>
  The body of the loop of \<open>_load_commands\<close> up to the write into the registry: the command
  record of a file, or \<open>None\<close> where an exception is raised (and caught: the file is skipped).
\<close>

definition build_command ::
  "'p filesystem \<Rightarrow> codecs \<Rightarrow> 'p \<Rightarrow> string \<Rightarrow> 'p \<Rightarrow> 'p Command option" where
  "build_command fs cd commands_dir scp cmd_file =
    (case read_text fs cmd_file of
       Inl e \<Rightarrow> None
     | Inr text \<Rightarrow>
         (case parse_frontmatter cd text of
            Inl e \<Rightarrow> None
          | Inr (frontmatter, body) \<Rightarrow>
              (case frontmatter of
                 YMap fm \<Rightarrow>
                   (let ns = (if rel_parent fs cmd_file commands_dir \<noteq> ''.''
                              then rel_parent fs cmd_file commands_dir else []);
                        display_name = (if ns \<noteq> [] then ns @ '':'' @ stem fs cmd_file
                                        else stem fs cmd_file)
                    in case parse_hooks_from_frontmatter (dict_get fm (YStr ''hooks'') YNull) of
                         Inl e \<Rightarrow> None
                       | Inr hs \<Rightarrow>
                           Some \<lparr> name = display_name,
                                  path = cmd_file,
                                  description = dict_get fm (YStr ''description'') (YStr []),
                                  argument_hint = dict_get fm (YStr ''argument-hint'') (YStr []),
                                  allowed_tools =
                                    parse_allowed_tools cd (dict_get fm (YStr ''allowed-tools'') YNull),
                                  disallowed_tools =
                                    parse_allowed_tools cd (dict_get fm (YStr ''disallowedTools'') YNull),
                                  model = dict_get fm (YStr ''model'') YNull,
                                  cmd_hooks = hs,
                                  content = body,
                                  scope = scp,
                                  namespace = ns,
                                  cmd_context = dict_get fm (YStr ''context'') (YStr ''main''),
                                  cmd_agent = dict_get fm (YStr ''agent'') YNull \<rparr>)
               | _ \<Rightarrow> None)))"

definition load_command_file ::
  "'p filesystem \<Rightarrow> codecs \<Rightarrow> 'p \<Rightarrow> string \<Rightarrow> 'p \<Rightarrow> 'p BridgeRegistry \<Rightarrow> 'p BridgeRegistry" where
  "load_command_file fs cd commands_dir scp cmd_file reg =
    (case build_command fs cd commands_dir scp cmd_file of
       None \<Rightarrow> reg
     | Some cmd \<Rightarrow> reg\<lparr>commands := (commands reg)(name cmd \<mapsto> cmd)\<rparr>)"

text \<open>
  \<open>_load_commands\<close> probes the directory outside any \<^verbatim>\<open>try\<close>; the files are loaded one by one,
  each inside its own \<^verbatim>\<open>try\<close>.
\<close>

definition load_commands ::
  "'p filesystem \<Rightarrow> codecs \<Rightarrow> 'p \<Rightarrow> string \<Rightarrow> 'p step" where
  "load_commands fs cd commands_dir scp =
    probe_step (exists fs commands_dir)
      (do_step (fold (load_command_file fs cd commands_dir scp) (rglob_md fs commands_dir)))
      skip_step"

definition build_subagent ::
  "'p filesystem \<Rightarrow> codecs \<Rightarrow> string \<Rightarrow> 'p \<Rightarrow> 'p Subagent option" where
  "build_subagent fs cd scp agent_file =
    (case read_text fs agent_file of
       Inl e \<Rightarrow> None
     | Inr text \<Rightarrow>
         (case parse_frontmatter cd text of
            Inl e \<Rightarrow> None
          | Inr (frontmatter, body) \<Rightarrow>
              (case frontmatter of
                 YMap fm \<Rightarrow>
                   (case parse_hooks_from_frontmatter (dict_get fm (YStr ''hooks'') YNull) of
                      Inl e \<Rightarrow> None
                    | Inr hs \<Rightarrow>
                        (let nm = dict_get fm (YStr ''name'') (YStr (stem fs agent_file))
                         in if \<not> hashable nm then None
                            else Some \<lparr> sa_name = nm,
                                        sa_path = agent_file,
                                        sa_description = dict_get fm (YStr ''description'') (YStr []),
                                        sa_tools = parse_allowed_tools cd (dict_get fm (YStr ''tools'') YNull),
                                        sa_disallowed_tools =
                                          parse_allowed_tools cd (dict_get fm (YStr ''disallowedTools'') YNull),
                                        sa_model = dict_get fm (YStr ''model'') (YStr ''sonnet''),
                                        sa_permission_mode =
                                          dict_get fm (YStr ''permissionMode'') (YStr ''default''),
                                        sa_hooks = hs,
                                        sa_skills = dict_get fm (YStr ''skills'') (YSeq []),
                                        sa_prompt = body,
                                        sa_scope = scp \<rparr>))
               | _ \<Rightarrow> None)))"

definition load_subagent_file ::
  "'p filesystem \<Rightarrow> codecs \<Rightarrow> string \<Rightarrow> 'p \<Rightarrow> 'p BridgeRegistry \<Rightarrow> 'p BridgeRegistry" where
  "load_subagent_file fs cd scp agent_file reg =
    (case build_subagent fs cd scp agent_file of
       None \<Rightarrow> reg
     | Some a \<Rightarrow> reg\<lparr>subagents := (subagents reg)(norm_key (sa_name a) \<mapsto> a)\<rparr>)"

definition load_subagents ::
  "'p filesystem \<Rightarrow> codecs \<Rightarrow> 'p \<Rightarrow> string \<Rightarrow> 'p step" where
  "load_subagents fs cd agents_dir scp =
    probe_step (exists fs agents_dir)
      (do_step (fold (load_subagent_file fs cd scp) (glob_md fs agents_dir)))
      skip_step"

text \<open>
  The supporting files of a skill: the entries \<open>f\<close> of its directory with \<^verbatim>\<open>f.is_file()\<close> and a
  name other than \<^verbatim>\<open>SKILL.md\<close>; \<open>None\<close> where a probe raises.
\<close>

fun supporting_files :: "'p filesystem \<Rightarrow> 'p list \<Rightarrow> 'p list option" where
  "supporting_files fs [] = Some []"
| "supporting_files fs (f # entries) =
     (case is_file fs f of
        Inl e \<Rightarrow> None
      | Inr regular \<Rightarrow>
          (case supporting_files fs entries of
             None \<Rightarrow> None
           | Some kept \<Rightarrow>
               Some (if regular \<and> path_name fs f \<noteq> ''SKILL.md'' then f # kept else kept)))"

text \<open>
  The body of the \<^verbatim>\<open>try\<close> block of \<open>_load_skills\<close> up to the write into the registry: the skill
  record of a directory, or \<open>None\<close> where an exception is raised (and caught).
\<close>

definition build_skill :: "'p filesystem \<Rightarrow> codecs \<Rightarrow> 'p \<Rightarrow> 'p Skill option" where
  "build_skill fs cd skill_dir =
    (let skill_file = path_join fs skill_dir ''SKILL.md''
     in case read_text fs skill_file of
          Inl e \<Rightarrow> None
        | Inr text \<Rightarrow>
            (case parse_frontmatter cd text of
               Inl e \<Rightarrow> None
             | Inr (frontmatter, body) \<Rightarrow>
                 (case frontmatter of
                    YMap fm \<Rightarrow>
                      (case iterdir fs skill_dir of
                         Inl e \<Rightarrow> None
                       | Inr entries \<Rightarrow>
                           (case supporting_files fs entries of
                              None \<Rightarrow> None
                            | Some supporting \<Rightarrow>
                                (case parse_hooks_from_frontmatter
                                        (dict_get fm (YStr ''hooks'') YNull) of
                                   Inl e \<Rightarrow> None
                                 | Inr hs \<Rightarrow>
                                     (let nm = dict_get fm (YStr ''name'')
                                                 (YStr (path_name fs skill_dir))
                                      in if \<not> hashable nm then None
                                         else Some
                                           \<lparr> sk_name = nm,
                                             sk_path = skill_file,
                                             sk_description =
                                               dict_get fm (YStr ''description'') (YStr []),
                                             sk_allowed_tools =
                                               parse_allowed_tools cd
                                                 (dict_get fm (YStr ''allowed-tools'') YNull),
                                             sk_context_mode =
                                               dict_get fm (YStr ''context'') (YStr ''main''),
                                             sk_user_invocable =
                                               dict_get fm (YStr ''user-invocable'') (YBool True),
                                             sk_hooks = hs,
                                             sk_content = body,
                                             sk_supporting_files = supporting,
                                             sk_agent = dict_get fm (YStr ''agent'') YNull \<rparr>))))
                  | _ \<Rightarrow> None)))"

text \<open>
  One round of the loop of \<open>_load_skills\<close>: the two probes of the entry stand outside the
  \<^verbatim>\<open>try\<close>, so an exception of theirs ends the loop and leaves \<open>_load_skills\<close>.
\<close>

definition load_skill_dir :: "'p filesystem \<Rightarrow> codecs \<Rightarrow> 'p \<Rightarrow> 'p step" where
  "load_skill_dir fs cd skill_dir =
    probe_step (is_dir fs skill_dir)
      (probe_step (exists fs (path_join fs skill_dir ''SKILL.md''))
         (do_step (\<lambda>reg. case build_skill fs cd skill_dir of
                           None \<Rightarrow> reg
                         | Some s \<Rightarrow> reg\<lparr>skills := (skills reg)(norm_key (sk_name s) \<mapsto> s)\<rparr>))
         skip_step)
      skip_step"

text \<open>
  \<open>_load_skills\<close> lists the directory outside any \<^verbatim>\<open>try\<close>: where the listing raises, the call
  raises, before it has loaded a skill.
\<close>

definition load_skills :: "'p filesystem \<Rightarrow> codecs \<Rightarrow> 'p \<Rightarrow> 'p step" where
  "load_skills fs cd skills_dir =
    probe_step (exists fs skills_dir)
      (case iterdir fs skills_dir of
         Inl e \<Rightarrow> raise_step (OSError e)
       | Inr dirs \<Rightarrow> for_each (load_skill_dir fs cd) dirs)
      skip_step"

subsection \<open>Loading plugins\<close>

text \<open>
  The body of the \<^verbatim>\<open>try\<close> block of \<open>_load_plugin\<close> is a sequence of steps. Whatever one of
  them raises, the handler prints a warning and returns, so an exception ends the sequence
  and the registry stays as the steps before it left it.

  \<^verbatim>\<open>plugin_dir / v\<close> for a value of the manifest: \<^verbatim>\<open>TypeError\<close> (\<open>None\<close>) unless the value is a
  string.
\<close>

definition join_value :: "'p filesystem \<Rightarrow> 'p \<Rightarrow> yaml \<Rightarrow> 'p option" where
  "join_value fs d v = (case v of YStr s \<Rightarrow> Some (path_join fs d s) | _ \<Rightarrow> None)"

definition load_plugin_commands ::
  "'p filesystem \<Rightarrow> codecs \<Rightarrow> 'p \<Rightarrow> (yaml \<times> yaml) list \<Rightarrow> 'p step" where
  "load_plugin_commands fs cd plugin_dir manifest =
    (case join_value fs plugin_dir (dict_get manifest (YStr ''commands'') (YStr ''commands'')) of
       None \<Rightarrow> raise_step (TypeError ''unsupported operand type(s) for /'')
     | Some commands_dir \<Rightarrow>
         then_step
           (probe_step (exists fs commands_dir)
              (load_commands fs cd commands_dir ''plugin'') skip_step)
           (probe_step (exists fs (path_join fs (path_join fs plugin_dir ''.claude'') ''commands''))
              (load_commands fs cd
                 (path_join fs (path_join fs plugin_dir ''.claude'') ''commands'') ''plugin'')
              skip_step))"

definition load_plugin_agents ::
  "'p filesystem \<Rightarrow> codecs \<Rightarrow> 'p \<Rightarrow> (yaml \<times> yaml) list \<Rightarrow> 'p step" where
  "load_plugin_agents fs cd plugin_dir manifest =
    (case join_value fs plugin_dir (dict_get manifest (YStr ''agents'') (YStr ''agents'')) of
       None \<Rightarrow> raise_step (TypeError ''unsupported operand type(s) for /'')
     | Some agents_dir \<Rightarrow>
         then_step
           (probe_step (exists fs agents_dir)
              (load_subagents fs cd agents_dir ''plugin'') skip_step)
           (probe_step (exists fs (path_join fs (path_join fs plugin_dir ''.claude'') ''agents''))
              (load_subagents fs cd
                 (path_join fs (path_join fs plugin_dir ''.claude'') ''agents'') ''plugin'')
              skip_step))"

definition load_plugin_skills ::
  "'p filesystem \<Rightarrow> codecs \<Rightarrow> 'p \<Rightarrow> (yaml \<times> yaml) list \<Rightarrow> 'p step" where
  "load_plugin_skills fs cd plugin_dir manifest =
    (case join_value fs plugin_dir (dict_get manifest (YStr ''skills'') (YStr ''skills'')) of
       None \<Rightarrow> raise_step (TypeError ''unsupported operand type(s) for /'')
     | Some skills_dir \<Rightarrow>
         then_step
           (probe_step (exists fs skills_dir) (load_skills fs cd skills_dir) skip_step)
           (probe_step (exists fs (path_join fs (path_join fs plugin_dir ''.claude'') ''skills''))
              (load_skills fs cd (path_join fs (path_join fs plugin_dir ''.claude'') ''skills''))
              skip_step))"

definition merge_hook :: "yaml \<times> yaml \<Rightarrow> 'p BridgeRegistry \<Rightarrow> 'p BridgeRegistry" where
  "merge_hook item reg =
    (case item of (event_type, hook_list) \<Rightarrow>
       (let present = (case reg_hooks reg (norm_key event_type) of None \<Rightarrow> [] | Some l \<Rightarrow> l)
        in reg\<lparr>reg_hooks := (reg_hooks reg)(norm_key event_type \<mapsto>
              (case hook_list of YSeq l \<Rightarrow> present @ l | _ \<Rightarrow> present))\<rparr>))"

definition merge_hooks :: "(yaml \<times> yaml) list \<Rightarrow> 'p BridgeRegistry \<Rightarrow> 'p BridgeRegistry" where
  "merge_hooks hs reg = fold merge_hook hs reg"

text \<open>
  The hook bundle of a plugin: \<open>Some None\<close> where the plugin has no \<^verbatim>\<open>hooks/hooks.json\<close>,
  \<open>Some (Some hs)\<close> for the dictionary under its key \<open>hooks\<close>, and \<open>None\<close> where probing or
  reading the file, or merging its hooks, raises.
\<close>

definition read_plugin_hooks ::
  "'p filesystem \<Rightarrow> codecs \<Rightarrow> 'p \<Rightarrow> (yaml \<times> yaml) list option option" where
  "read_plugin_hooks fs cd plugin_dir =
    (let hooks_file = path_join fs (path_join fs plugin_dir ''hooks'') ''hooks.json''
     in case exists fs hooks_file of
          Inl e \<Rightarrow> None
        | Inr found \<Rightarrow>
            if \<not> found then Some None
            else (case read_text fs hooks_file of
                    Inl e \<Rightarrow> None
                  | Inr text \<Rightarrow>
                      (case json_loads cd text of
                         Some (YMap hooks_data) \<Rightarrow>
                           (case dict_get hooks_data (YStr ''hooks'') (YMap []) of
                              YMap hs \<Rightarrow> Some (Some hs)
                            | _ \<Rightarrow> None)
                       | _ \<Rightarrow> None)))"

text \<open>
  The MCP block: \<open>Some None\<close> without \<^verbatim>\<open>.mcp.json\<close>, \<open>None\<close> where probing or reading it raises.
\<close>

definition read_plugin_mcp :: "'p filesystem \<Rightarrow> codecs \<Rightarrow> 'p \<Rightarrow> yaml option option" where
  "read_plugin_mcp fs cd plugin_dir =
    (let mcp_file = path_join fs plugin_dir ''.mcp.json''
     in case exists fs mcp_file of
          Inl e \<Rightarrow> None
        | Inr found \<Rightarrow>
            if \<not> found then Some None
            else (case read_text fs mcp_file of
                    Inl e \<Rightarrow> None
                  | Inr text \<Rightarrow>
                      (case json_loads cd text of None \<Rightarrow> None | Some v \<Rightarrow> Some (Some v))))"

text \<open>
  The end of the \<^verbatim>\<open>try\<close> block: the hooks are merged, the MCP block is read and the plugin is
  written into the registry. The exceptions raised here are caught in \<open>_load_plugin\<close>, which
  does not look at them; they are given as \<open>OtherError\<close> with the name of the file.
\<close>

definition register_plugin ::
  "'p filesystem \<Rightarrow> codecs \<Rightarrow> 'p \<Rightarrow> (yaml \<times> yaml) list \<Rightarrow> 'p step" where
  "register_plugin fs cd plugin_dir manifest =
    (let plugin = \<lparr> pl_name = dict_get manifest (YStr ''name'') (YStr (path_name fs plugin_dir)),
                     pl_path = plugin_dir,
                     pl_version = dict_get manifest (YStr ''version'') (YStr ''1.0.0''),
                     pl_description = dict_get manifest (YStr ''description'') (YStr []),
                     pl_commands = [], pl_agents = [], pl_skills = [],
                     pl_hooks = YMap [], pl_mcp_config = None \<rparr>
     in case read_plugin_hooks fs cd plugin_dir of
          None \<Rightarrow> raise_step (OtherError ''hooks.json'')
        | Some hs \<Rightarrow>
            then_step
              (do_step (case hs of None \<Rightarrow> (\<lambda>reg. reg) | Some h \<Rightarrow> merge_hooks h))
              (case read_plugin_mcp fs cd plugin_dir of
                 None \<Rightarrow> raise_step (OtherError ''.mcp.json'')
               | Some mcp \<Rightarrow>
                   if \<not> hashable (pl_name plugin) then raise_step (TypeError ''unhashable type'')
                   else do_step (\<lambda>reg. reg\<lparr>plugins := (plugins reg)(norm_key (pl_name plugin) \<mapsto>
                          plugin\<lparr>pl_hooks := (case hs of None \<Rightarrow> YMap [] | Some h \<Rightarrow> YMap h),
                                 pl_mcp_config := mcp\<rparr>)\<rparr>)))"

text \<open>
  The manifest of a plugin directory: \<open>Inr None\<close> where it has none, \<open>Inl\<close> where a probe
  raises. Both probes stand before the \<^verbatim>\<open>try\<close> block of \<open>_load_plugin\<close>.
\<close>

definition manifest_file :: "'p filesystem \<Rightarrow> 'p \<Rightarrow> py_error + 'p option" where
  "manifest_file fs plugin_dir =
    (case exists fs (path_join fs (path_join fs plugin_dir ''.claude-plugin'') ''plugin.json'') of
       Inl e \<Rightarrow> Inl (OSError e)
     | Inr found \<Rightarrow>
         if found
         then Inr (Some (path_join fs (path_join fs plugin_dir ''.claude-plugin'') ''plugin.json''))
         else (case exists fs (path_join fs plugin_dir ''plugin.json'') of
                 Inl e \<Rightarrow> Inl (OSError e)
               | Inr found \<Rightarrow>
                   if found then Inr (Some (path_join fs plugin_dir ''plugin.json''))
                   else Inr None))"

text \<open>
  The \<^verbatim>\<open>try\<close> block of \<open>_load_plugin\<close> for the manifest \<open>mf\<close>: a manifest that cannot be read,
  is not JSON or is not a dictionary raises before anything is loaded.
\<close>

definition plugin_steps :: "'p filesystem \<Rightarrow> codecs \<Rightarrow> 'p \<Rightarrow> 'p \<Rightarrow> 'p step" where
  "plugin_steps fs cd plugin_dir mf =
    (case read_text fs mf of
       Inl e \<Rightarrow> raise_step (OtherError e)
     | Inr text \<Rightarrow>
         (case json_loads cd text of
            Some (YMap manifest) \<Rightarrow>
              then_step (load_plugin_commands fs cd plugin_dir manifest)
             (then_step (load_plugin_agents fs cd plugin_dir manifest)
             (then_step (load_plugin_skills fs cd plugin_dir manifest)
                        (register_plugin fs cd plugin_dir manifest)))
          | Some v \<Rightarrow> raise_step (AttributeError ''get'')
          | None \<Rightarrow> raise_step (ValueError ''JSONDecodeError'')))"

definition load_plugin :: "'p filesystem \<Rightarrow> codecs \<Rightarrow> 'p \<Rightarrow> 'p step" where
  "load_plugin fs cd plugin_dir =
    (case manifest_file fs plugin_dir of
       Inl e \<Rightarrow> raise_step e
     | Inr None \<Rightarrow> skip_step
     | Inr (Some mf) \<Rightarrow> catch_step (plugin_steps fs cd plugin_dir mf))"

text \<open>
  The plugins of a directory: every entry that is a directory is a candidate. The listing
  and the probes of the entries stand outside any \<^verbatim>\<open>try\<close>.
\<close>

definition load_plugin_dirs :: "'p filesystem \<Rightarrow> codecs \<Rightarrow> 'p \<Rightarrow> 'p step" where
  "load_plugin_dirs fs cd plugins_dir =
    probe_step (exists fs plugins_dir)
      (case iterdir fs plugins_dir of
         Inl e \<Rightarrow> raise_step (OSError e)
       | Inr dirs \<Rightarrow>
           for_each (\<lambda>plugin_dir. probe_step (is_dir fs plugin_dir)
                                    (load_plugin fs cd plugin_dir) skip_step) dirs)
      skip_step"

text \<open>
  \<open>_load_plugins\<close>; \<open>bridge_dir\<close> is the directory of \<^verbatim>\<open>loader.py\<close> itself
  (\<^verbatim>\<open>Path(__file__).parent\<close>).
\<close>

definition load_plugins :: "'p filesystem \<Rightarrow> codecs \<Rightarrow> 'p \<Rightarrow> 'p \<Rightarrow> 'p step" where
  "load_plugins fs cd root bridge_dir =
    then_step (load_plugin_dirs fs cd (path_join fs root ''.claude-plugins''))
   (then_step (probe_step (exists fs (path_join fs root ''.claude-plugin''))
                 (load_plugin fs cd root) skip_step)
              (load_plugin_dirs fs cd (path_join fs bridge_dir ''plugins'')))"

text \<open>
  \<open>load_all\<close>, from the registry the loader holds (empty for a new loader): the components of
  the project, then the plugins. It returns the registry, or raises what a step raises.
\<close>

definition load_all ::
  "'p filesystem \<Rightarrow> codecs \<Rightarrow> 'p \<Rightarrow> 'p \<Rightarrow> 'p BridgeRegistry \<Rightarrow> py_error + 'p BridgeRegistry" where
  "load_all fs cd root bridge_dir reg =
    (let project_claude = path_join fs root ''.claude''
     in case then_step (load_commands fs cd (path_join fs project_claude ''commands'') ''project'')
            (then_step (load_subagents fs cd (path_join fs project_claude ''agents'') ''project'')
            (then_step (load_skills fs cd (path_join fs project_claude ''skills''))
                       (load_plugins fs cd root bridge_dir))) reg of
          (Normal, reg') \<Rightarrow> Inr reg'
        | (Exception e, reg') \<Rightarrow> Inl e)"

subsection \<open>What a loading function does to the commands\<close>

text \<open>
  A function on registries writes commands of a scope when there is one map of commands of
  that scope, the same for every registry, that the function lays over the commands of the
  registry it is given. For a step, whether it returns or raises must be the same for every
  registry as well.
\<close>

definition writes_commands ::
  "string \<Rightarrow> ('p BridgeRegistry \<Rightarrow> 'p BridgeRegistry) \<Rightarrow> bool" where
  "writes_commands scp f =
    (\<exists>m. (\<forall>reg. commands (f reg) = commands reg ++ m) \<and> (\<forall>n c. m n = Some c \<longrightarrow> scope c = scp))"

definition step_writes_commands :: "string \<Rightarrow> 'p step \<Rightarrow> bool" where
  "step_writes_commands scp s =
    (\<exists>b f. (\<forall>reg. s reg = (b, f reg)) \<and> writes_commands scp f)"

subsection \<open>Test doubles for the file system and the documents\<close>

text \<open>
  A file system whose paths are strings. The project root \<open>/proj\<close> holds the file
  \<open>notes.md\<close>, the file \<open>locked.md\<close> that cannot be read, the directory \<open>docs\<close>, the directory
  \<open>sealed\<close> that may not be searched (a probe of a path under it raises), the command \<open>foo\<close> and
  the plugin \<open>tools\<close>, which has a command \<open>foo\<close> of its own. The home directory of the current
  user is \<open>/home/me\<close>, and no other user has one.
\<close>

definition toy_files :: "(string \<times> string) list" where
  "toy_files =
    [(''/proj/notes.md'', ''pay $1''),
     (''/proj/.claude/commands/foo.md'', ''project foo''),
     (''/proj/.claude-plugins/tools/plugin.json'', ''{}''),
     (''/proj/.claude-plugins/tools/commands/foo.md'', ''---\<newline>description: Foo\<newline>---\<newline>plugin foo'')]"

definition toy_dirs :: "(string \<times> string list) list" where
  "toy_dirs =
    [(''/proj/docs'', []),
     (''/proj/sealed'', []),
     (''/proj/.claude'', [''/proj/.claude/commands'']),
     (''/proj/.claude/commands'', [''/proj/.claude/commands/foo.md'']),
     (''/proj/.claude-plugins'', [''/proj/.claude-plugins/tools'']),
     (''/proj/.claude-plugins/tools'',
        [''/proj/.claude-plugins/tools/plugin.json'', ''/proj/.claude-plugins/tools/commands'']),
     (''/proj/.claude-plugins/tools/commands'', [''/proj/.claude-plugins/tools/commands/foo.md''])]"

definition toy_fs :: "string filesystem" where
  "toy_fs =
    \<lparr> path_join = (\<lambda>d s. if startswith s ''/'' then s else d @ ''/'' @ s),
      path_of = (\<lambda>s. s),
      path_str = (\<lambda>p. p),
      expanduser = (\<lambda>p. if p = ''~'' then Some ''/home/me''
                         else if startswith p ''~/'' then Some (''/home/me'' @ drop 1 p)
                         else if startswith p ''~'' then None
                         else Some p),
      exists = (\<lambda>p. if startswith p ''/proj/sealed/'' then Inl ''[Errno 13] Permission denied''
                     else Inr (p \<in> set (''/proj/locked.md'' # map fst toy_files @ map fst toy_dirs))),
      is_file = (\<lambda>p. if startswith p ''/proj/sealed/'' then Inl ''[Errno 13] Permission denied''
                      else Inr (p \<in> set (''/proj/locked.md'' # map fst toy_files))),
      read_text = (\<lambda>p. case map_of toy_files p of Some text \<Rightarrow> Inr text
                        | None \<Rightarrow> Inl ''[Errno 13] Permission denied''),
      is_dir = (\<lambda>p. if startswith p ''/proj/sealed/'' then Inl ''[Errno 13] Permission denied''
                     else Inr (p \<in> set (map fst toy_dirs))),
      iterdir = (\<lambda>p. case map_of toy_dirs p of Some entries \<Rightarrow> Inr entries
                      | None \<Rightarrow> Inl ''[Errno 20] Not a directory''),
      rglob_md = (\<lambda>d. case map_of toy_dirs d of None \<Rightarrow> []
                       | Some es \<Rightarrow> filter (\<lambda>e. e \<in> set (map fst toy_files)) es),
      glob_md = (\<lambda>d. case map_of toy_dirs d of None \<Rightarrow> []
                      | Some es \<Rightarrow> filter (\<lambda>e. e \<in> set (map fst toy_files)) es),
      stem = (\<lambda>p. if p = ''/proj/.claude/commands/foo.md''
                      \<or> p = ''/proj/.claude-plugins/tools/commands/foo.md'' then ''foo'' else p),
      path_name = (\<lambda>p. if p = ''/proj/.claude-plugins/tools'' then ''tools'' else p),
      rel_parent = (\<lambda>f d. ''.'') \<rparr>"

text \<open>
  The documents of the toy file system: the front matter of the plugin's command parses,
  the text \<open>a: [1\<close> does not, the date of \<open>date: 2001-99-99\<close> has no such month (the
  constructor of the date raises \<^verbatim>\<open>ValueError\<close>), and the manifest is an empty JSON object.
\<close>

definition toy_codecs :: codecs where
  "toy_codecs =
    \<lparr> yaml_safe_load = (\<lambda>s. if s = ''description: Foo'' then Loaded (YMap [(YStr ''description'', YStr ''Foo'')])
                             else if s = ''a: [1'' then YAMLError ''while parsing a flow sequence''
                             else if s = ''date: 2001-99-99''
                               then LoadFailure (ValueError ''month must be in 1..12'')
                             else Loaded YNull),
      json_loads = (\<lambda>s. if s = ''{}'' then Some (YMap []) else None),
      py_str = (\<lambda>v. ''?'') \<rparr>"

definition toy_command :: "string \<Rightarrow> string Command" where
  "toy_command body =
    \<lparr> name = ''demo'', path = ''/proj/.claude/commands/demo.md'', description = YStr [],
      argument_hint = YStr [], allowed_tools = [], disallowed_tools = [], model = YNull,
      cmd_hooks = YMap [], content = body, scope = ''project'', namespace = [],
      cmd_context = YStr ''main'', cmd_agent = YNull \<rparr>"

text \<open>The two commands named \<open>foo\<close> of the toy file system, as the loader builds them.\<close>

definition toy_project_foo :: "string Command" where
  "toy_project_foo =
    \<lparr> name = ''foo'', path = ''/proj/.claude/commands/foo.md'', description = YStr [],
      argument_hint = YStr [], allowed_tools = [], disallowed_tools = [], model = YNull,
      cmd_hooks = YMap [], content = ''project foo'', scope = ''project'', namespace = [],
      cmd_context = YStr ''main'', cmd_agent = YNull \<rparr>"

definition toy_plugin_foo :: "string Command" where
  "toy_plugin_foo =
    \<lparr> name = ''foo'', path = ''/proj/.claude-plugins/tools/commands/foo.md'',
      description = YStr ''Foo'', argument_hint = YStr [], allowed_tools = [],
      disallowed_tools = [], model = YNull, cmd_hooks = YMap [], content = ''plugin foo'',
      scope = ''plugin'', namespace = [], cmd_context = YStr ''main'', cmd_agent = YNull \<rparr>"

section \<open>The test doubles, field by field\<close>

lemma toy_fs_fields:
  "path_join toy_fs d s = (if startswith s ''/'' then s else d @ ''/'' @ s)"
  "path_of toy_fs s = s"
  "path_str toy_fs p = p"
  "exists toy_fs p =
     (if startswith p ''/proj/sealed/'' then Inl ''[Errno 13] Permission denied''
      else Inr (p \<in> set (''/proj/locked.md'' # map fst toy_files @ map fst toy_dirs)))"
  "is_file toy_fs p =
     (if startswith p ''/proj/sealed/'' then Inl ''[Errno 13] Permission denied''
      else Inr (p \<in> set (''/proj/locked.md'' # map fst toy_files)))"
  "read_text toy_fs p = (case map_of toy_files p of Some t \<Rightarrow> Inr t
                          | None \<Rightarrow> Inl ''[Errno 13] Permission denied'')"
  "is_dir toy_fs p =
     (if startswith p ''/proj/sealed/'' then Inl ''[Errno 13] Permission denied''
      else Inr (p \<in> set (map fst toy_dirs)))"
  "iterdir toy_fs p = (case map_of toy_dirs p of Some es \<Rightarrow> Inr es
                        | None \<Rightarrow> Inl ''[Errno 20] Not a directory'')"
  "rglob_md toy_fs d = (case map_of toy_dirs d of None \<Rightarrow> []
                         | Some es \<Rightarrow> filter (\<lambda>e. e \<in> set (map fst toy_files)) es)"
  "rel_parent toy_fs f d = ''.''"
  "expanduser toy_fs p = (if p = ''~'' then Some ''/home/me''
                          else if startswith p ''~/'' then Some (''/home/me'' @ drop 1 p)
                          else if startswith p ''~'' then None
                          else Some p)"
  "stem toy_fs p = (if p = ''/proj/.claude/commands/foo.md''
                      \<or> p = ''/proj/.claude-plugins/tools/commands/foo.md'' then ''foo'' else p)"
  "path_name toy_fs p = (if p = ''/proj/.claude-plugins/tools'' then ''tools'' else p)"
  by (simp_all add: toy_fs_def)

section \<open>Properties of the hook engine\<close>

lemma run_hooks_append:
  "r \<noteq> BLOCK \<Longrightarrow> run_hooks pf eng ts ctx (pre @ rest) r d w =
     (case run_hooks pf eng ts ctx pre r d w of
        (Inl e, d1, w1) \<Rightarrow> (Inl e, d1, w1)
      | (Inr r1, d1, w1) \<Rightarrow>
          if r1 = BLOCK then (Inr BLOCK, d1, w1) else run_hooks pf eng ts ctx rest r1 d1 w1)"
proof (induction pre arbitrary: r d w)
  case Nil
  then show ?case by simp
next
  case (Cons h pre)
  show ?case
  proof (cases "execute_hook pf eng h ctx w")
    case (Pair hr w')
    with Cons show ?thesis
      by (simp add: Let_def split: sum.splits bool.splits)
  qed
qed

lemma run_hooks_skip_unmatched:
  "matches pf (matcher h) (tool_name ctx) = Inr False \<Longrightarrow>
   run_hooks pf eng ts ctx (pre @ h # post) r d w = run_hooks pf eng ts ctx (pre @ post) r d w"
proof (induction pre arbitrary: r d w)
  case Nil
  then show ?case by simp
next
  case (Cons a pre)
  show ?case
  proof (cases "execute_hook pf eng a ctx w")
    case (Pair hr w')
    with Cons show ?thesis
      by (simp add: Let_def split: sum.splits bool.splits)
  qed
qed

lemma run_hooks_unmatched:
  "\<forall>h\<in>set hs. matches pf (matcher h) (tool_name ctx) = Inr False \<Longrightarrow>
   run_hooks pf eng ts ctx hs r d w = (Inr r, d, w)"
  by (induction hs) simp_all

lemma execute_command_hook_completed:
  assumes "truthy (command hook)"
    and "subprocess_run pf (substitute_variables pf eng (the (command hook)) ctx)
           (project_root eng) (hook_env pf eng ctx) (timeout hook) w1 = (Completed rc out err, w2)"
  shows "execute_command_hook pf eng hook ctx w1 = (result_of_returncode rc, w2)"
  using assms by (simp add: execute_command_hook_def)

text \<open>
  Claim C1. Let a hook of kind \<open>command\<close> stand anywhere in the list of an event type, and
  let the dispatch reach it (no earlier hook blocked, its matcher matches, it is not a
  once-hook that already ran) and run its subprocess to completion with return code \<open>rc\<close>.
  The hook resolves to \<open>CONTINUE\<close> for 0, to \<open>BLOCK\<close> for 2 and to \<open>ERROR\<close> for any other
  code. For 2 the dispatch returns \<open>BLOCK\<close> with the world as that subprocess left it: no
  hook registered after it has run. For any other code the dispatch goes on with the hooks
  registered after it.
\<close>

theorem command_hook_exit_code:
  assumes hs: "hooks eng (HookType_value ht) = Some (pre @ hook # post)"
    and pre: "run_hooks pf eng (HookType_value ht) ctx pre CONTINUE (executed_once_hooks eng) w
                = (Inr r1, d1, w1)"
    and nb: "r1 \<noteq> BLOCK"
    and m: "matches pf (matcher hook) (tool_name ctx) = Inr True"
    and fresh: "\<not> (once hook \<and> hook_id (HookType_value ht) hook \<in> d1)"
    and cmd: "htype hook = ''command''" "truthy (command hook)"
    and run: "subprocess_run pf (substitute_variables pf eng (the (command hook)) ctx)
           (project_root eng) (hook_env pf eng ctx) (timeout hook) w1 = (Completed rc out err, w2)"
    and d2: "d2 = (if once hook then insert (hook_id (HookType_value ht) hook) d1 else d1)"
  shows "execute_hook pf eng hook ctx w1
           = (if rc = 0 then CONTINUE else if rc = 2 then BLOCK else ERROR, w2)
       \<and> (rc = 2 \<longrightarrow>
            execute pf eng ht ctx w = (Inr BLOCK, eng\<lparr>executed_once_hooks := d2\<rparr>, w2))
       \<and> (rc \<noteq> 2 \<longrightarrow>
            execute pf eng ht ctx w =
              (case run_hooks pf eng (HookType_value ht) ctx post
                      (if rc = 0 then r1 else ERROR) d2 w2 of
                 (r, d, w') \<Rightarrow> (r, eng\<lparr>executed_once_hooks := d\<rparr>, w')))"
proof -
  have eh: "execute_hook pf eng hook ctx w1 = (result_of_returncode rc, w2)"
    using cmd run by (simp add: execute_hook_def execute_command_hook_completed)
  have loop: "run_hooks pf eng (HookType_value ht) ctx (pre @ hook # post) CONTINUE
                (executed_once_hooks eng) w
              = run_hooks pf eng (HookType_value ht) ctx (hook # post) r1 d1 w1"
    using pre nb by (simp add: run_hooks_append)
  have step: "run_hooks pf eng (HookType_value ht) ctx (hook # post) r1 d1 w1 =
      (if rc = 2 then (Inr BLOCK, d2, w2)
       else run_hooks pf eng (HookType_value ht) ctx post (if rc = 0 then r1 else ERROR) d2 w2)"
    using m fresh eh d2 by (auto simp add: result_of_returncode_def)
  show ?thesis
    using eh hs loop step by (simp add: execute_def result_of_returncode_def)
qed

text \<open>
  A blocking hook followed by a hook that matches every tool: only the first command is in
  the world afterwards.
\<close>

theorem command_hook_exit_code_witness:
  "execute toy_platform (toy_engine [command_hook ''Write'' ''exit 2'' False,
                                     command_hook ''.*'' ''touch later'' False])
      PRETOOLUSE (toy_context ''Write'') []
    = (Inr BLOCK, toy_engine [command_hook ''Write'' ''exit 2'' False,
                              command_hook ''.*'' ''touch later'' False], [''exit 2''])"
  using command_hook_exit_code [of
      "toy_engine [command_hook ''Write'' ''exit 2'' False, command_hook ''.*'' ''touch later'' False]"
      PRETOOLUSE "[]" "command_hook ''Write'' ''exit 2'' False"
      "[command_hook ''.*'' ''touch later'' False]" toy_platform "toy_context ''Write''" "[]"
      CONTINUE "{}" "[]" 2 "[]" "''denied\<newline>''" "[''exit 2'']" "{}"]
  by (simp add: toy_platform_def toy_shell_def toy_engine_def toy_context_def command_hook_def matches_def
      substitute_variables_def str_replace_def hook_env_def root_of_def)

lemma root_of_hooks_irrelevant: "root_of (eng\<lparr>hooks := hm\<rparr>) ctx = root_of eng ctx"
  by (simp add: root_of_def)

lemma substitute_variables_hooks_irrelevant:
  "substitute_variables pf (eng\<lparr>hooks := hm\<rparr>) t ctx = substitute_variables pf eng t ctx"
  by (simp add: substitute_variables_def root_of_hooks_irrelevant)

lemma hook_env_hooks_irrelevant: "hook_env pf (eng\<lparr>hooks := hm\<rparr>) ctx = hook_env pf eng ctx"
  by (simp add: hook_env_def root_of_hooks_irrelevant)

lemma execute_hook_hooks_irrelevant:
  "execute_hook pf (eng\<lparr>hooks := hm\<rparr>) hook ctx w = execute_hook pf eng hook ctx w"
  by (simp add: execute_hook_def execute_command_hook_def execute_prompt_hook_def
      execute_agent_hook_def substitute_variables_hooks_irrelevant hook_env_hooks_irrelevant
      split: option.splits)

lemma run_hooks_hooks_irrelevant:
  "run_hooks pf (eng\<lparr>hooks := hm\<rparr>) ts ctx hs r d w = run_hooks pf eng ts ctx hs r d w"
  by (induction hs arbitrary: r d w)
    (simp_all add: execute_hook_hooks_irrelevant Let_def split: prod.splits sum.splits bool.splits)

text \<open>
  Claim C2. An event type has a hook marked \<open>once\<close> that has not run yet; the other hooks of
  the event type, before and after it, are for other tools. Two events whose tool names the
  hook matches are dispatched one after the other. The first dispatch runs the hook once and
  returns the hook's own result; whatever that result is, the engine's executed-once set has
  gained the identity built from the event type, the matcher and the payload. The second
  dispatch runs nothing (the world stays as the first left it) and returns \<open>CONTINUE\<close>. So a
  hook that continues is run exactly once and both dispatches return \<open>CONTINUE\<close>.
\<close>

theorem once_hook_runs_once:
  assumes hs: "hooks eng (HookType_value ht) = Some (pre @ hook # post)"
    and others1: "\<forall>h\<in>set (pre @ post). matches pf (matcher h) (tool_name ctx1) = Inr False"
    and others2: "\<forall>h\<in>set (pre @ post). matches pf (matcher h) (tool_name ctx2) = Inr False"
    and o: "once hook"
    and fresh: "hook_id (HookType_value ht) hook \<notin> executed_once_hooks eng"
    and m1: "matches pf (matcher hook) (tool_name ctx1) = Inr True"
    and m2: "matches pf (matcher hook) (tool_name ctx2) = Inr True"
    and run: "execute_hook pf eng hook ctx1 w = (res, w1)"
    and eng1: "eng1 = eng\<lparr>executed_once_hooks :=
                 insert (HookType_value ht @ '':'' @ matcher hook @ '':'' @ fmt_opt (payload hook))
                   (executed_once_hooks eng)\<rparr>"
  shows "execute pf eng ht ctx1 w = (Inr res, eng1, w1)
       \<and> execute pf eng1 ht ctx2 w1 = (Inr CONTINUE, eng1, w1)"
proof -
  let ?ts = "HookType_value ht"
  let ?d = "executed_once_hooks eng"
  let ?d1 = "insert (hook_id ?ts hook) ?d"
  have pre1: "run_hooks pf eng ?ts ctx1 pre r d v = (Inr r, d, v)" for r d v
    using others1 by (intro run_hooks_unmatched) simp
  have post1: "run_hooks pf eng ?ts ctx1 post r d v = (Inr r, d, v)" for r d v
    using others1 by (intro run_hooks_unmatched) simp
  have "run_hooks pf eng ?ts ctx1 (hook # post) CONTINUE ?d w = (Inr res, ?d1, w1)"
    using o fresh m1 run by (cases res) (simp_all add: post1)
  then have "run_hooks pf eng ?ts ctx1 (pre @ hook # post) CONTINUE ?d w = (Inr res, ?d1, w1)"
    by (simp add: run_hooks_append pre1)
  then have first: "execute pf eng ht ctx1 w = (Inr res, eng1, w1)"
    using hs eng1 by (simp add: execute_def hook_id_def)
  have pre2: "run_hooks pf eng1 ?ts ctx2 pre r d v = (Inr r, d, v)" for r d v
    using others2 by (intro run_hooks_unmatched) simp
  have post2: "run_hooks pf eng1 ?ts ctx2 post r d v = (Inr r, d, v)" for r d v
    using others2 by (intro run_hooks_unmatched) simp
  have "run_hooks pf eng1 ?ts ctx2 (hook # post) CONTINUE ?d1 w1 = (Inr CONTINUE, ?d1, w1)"
    using o m2 by (simp add: post2)
  then have "run_hooks pf eng1 ?ts ctx2 (pre @ hook # post) CONTINUE ?d1 w1
      = (Inr CONTINUE, ?d1, w1)"
    by (simp add: run_hooks_append pre2)
  moreover have "hooks eng1 ?ts = Some (pre @ hook # post)"
    using hs eng1 by simp
  moreover have "executed_once_hooks eng1 = ?d1"
    using eng1 by (simp add: hook_id_def)
  ultimately have second: "execute pf eng1 ht ctx2 w1 = (Inr CONTINUE, eng1, w1)"
    using eng1 by (simp add: execute_def)
  from first second show ?thesis by simp
qed

text \<open>
  A hook for \<open>Write\<close> and a once-hook for \<open>Bash\<close>, and two \<open>Bash\<close> events: the command is in the
  world once.
\<close>

theorem once_hook_runs_once_witness:
  "execute toy_platform
       (toy_engine [command_hook ''Write'' ''exit 2'' False, command_hook ''Bash'' ''echo cleanup'' True])
       PRETOOLUSE (toy_context ''Bash'') []
     = (Inr CONTINUE,
        (toy_engine [command_hook ''Write'' ''exit 2'' False, command_hook ''Bash'' ''echo cleanup'' True])
          \<lparr>executed_once_hooks := {''PreToolUse:Bash:echo cleanup''}\<rparr>,
        [''echo cleanup''])
   \<and> execute toy_platform
       ((toy_engine [command_hook ''Write'' ''exit 2'' False, command_hook ''Bash'' ''echo cleanup'' True])
          \<lparr>executed_once_hooks := {''PreToolUse:Bash:echo cleanup''}\<rparr>)
       PRETOOLUSE (toy_context ''Bash -c'') [''echo cleanup'']
     = (Inr CONTINUE,
        (toy_engine [command_hook ''Write'' ''exit 2'' False, command_hook ''Bash'' ''echo cleanup'' True])
          \<lparr>executed_once_hooks := {''PreToolUse:Bash:echo cleanup''}\<rparr>,
        [''echo cleanup''])"
  using once_hook_runs_once [of
      "toy_engine [command_hook ''Write'' ''exit 2'' False, command_hook ''Bash'' ''echo cleanup'' True]"
      PRETOOLUSE "[command_hook ''Write'' ''exit 2'' False]"
      "command_hook ''Bash'' ''echo cleanup'' True" "[]" toy_platform
      "toy_context ''Bash''" "toy_context ''Bash -c''" "[]" CONTINUE "[''echo cleanup'']"
      "(toy_engine [command_hook ''Write'' ''exit 2'' False, command_hook ''Bash'' ''echo cleanup'' True])
          \<lparr>executed_once_hooks := {''PreToolUse:Bash:echo cleanup''}\<rparr>"]
  by (simp add: toy_platform_def toy_shell_def toy_engine_def toy_context_def command_hook_def matches_def
      substitute_variables_def str_replace_def hook_env_def root_of_def hook_id_def payload_def
      execute_hook_def execute_command_hook_def result_of_returncode_def)

subsection \<open>Matchers that do not compile\<close>

text \<open>
  The part of claim C9 that holds. A hook whose matcher is rejected with \<^verbatim>\<open>re.error\<close> matches
  no tool name, and a dispatch with it gives the result, the executed-once set and the world
  of the dispatch without it: the hook is never run and adds neither \<open>BLOCK\<close> nor \<open>ERROR\<close>.
\<close>

lemma re_error_matcher_hook_skipped:
  assumes hs: "hooks eng (HookType_value ht) = Some (pre @ hook # post)"
    and bad: "re_compile pf (matcher hook) = ReError e"
  shows "(\<forall>tool. matches pf (matcher hook) tool = Inr False)
       \<and> execute pf eng ht ctx w =
           (case execute pf (eng\<lparr>hooks := (hooks eng)(HookType_value ht \<mapsto> pre @ post)\<rparr>) ht ctx w of
              (r, eng', w') \<Rightarrow> (r, eng'\<lparr>hooks := hooks eng\<rparr>, w'))"
proof -
  have nm: "matches pf (matcher hook) tool = Inr False" for tool
    using bad by (simp add: matches_def)
  have "run_hooks pf eng (HookType_value ht) ctx (pre @ hook # post) CONTINUE
          (executed_once_hooks eng) w
        = run_hooks pf eng (HookType_value ht) ctx (pre @ post) CONTINUE
          (executed_once_hooks eng) w"
    using nm by (rule run_hooks_skip_unmatched)
  then have "execute pf eng ht ctx w =
           (case execute pf (eng\<lparr>hooks := (hooks eng)(HookType_value ht \<mapsto> pre @ post)\<rparr>) ht ctx w of
              (r, eng', w') \<Rightarrow> (r, eng'\<lparr>hooks := hooks eng\<rparr>, w'))"
    using hs by (simp add: execute_def run_hooks_hooks_irrelevant split: prod.splits)
  with nm show ?thesis by blast
qed

lemma re_error_matcher_hook_skipped_example:
  "execute toy_platform (toy_engine [command_hook ''('' ''exit 2'' False,
                                     command_hook ''.*'' ''echo ok'' False])
      PRETOOLUSE (toy_context ''Write'') []
    = (Inr CONTINUE, toy_engine [command_hook ''('' ''exit 2'' False,
                                 command_hook ''.*'' ''echo ok'' False], [''echo ok''])"
  by (simp add: toy_platform_def toy_shell_def toy_engine_def toy_context_def command_hook_def matches_def
      substitute_variables_def str_replace_def hook_env_def root_of_def hook_id_def payload_def
      execute_def execute_hook_def execute_command_hook_def result_of_returncode_def)

text \<open>
  What one hook does to a dispatch when compiling its matcher raises another exception: the
  dispatch ends with that exception at this hook, whatever hooks come after it.
\<close>

lemma run_hooks_matcher_raises:
  assumes "re_compile pf (matcher hook) = CompileError e"
  shows "run_hooks pf eng ts ctx (hook # post) r d w = (Inl e, d, w)"
  using assms by (simp add: matches_def)

text \<open>
  Claim C9 fails at a matcher that is not a valid regular expression and that \<^verbatim>\<open>re\<close> rejects
  with an exception other than \<^verbatim>\<open>re.error\<close>: the repetition count of
  \<open>a{99999999999999999999}\<close> makes \<^verbatim>\<open>re.match\<close> raise \<^verbatim>\<open>OverflowError\<close>, \<open>_matches\<close> does not
  catch it, and the dispatch raises instead of skipping the hook. The hook registered after
  it, which matches every tool, is not run.
\<close>

theorem overflowing_matcher_raises:
  "execute toy_platform (toy_engine [command_hook ''a{99999999999999999999}'' ''exit 2'' False,
                                     command_hook ''.*'' ''echo ok'' False])
      PRETOOLUSE (toy_context ''Write'') []
    = (Inl (OverflowError ''the repetition number is too large''),
       toy_engine [command_hook ''a{99999999999999999999}'' ''exit 2'' False,
                   command_hook ''.*'' ''echo ok'' False], [])"
  by (simp add: toy_platform_def toy_engine_def toy_context_def command_hook_def matches_def
      execute_def)

section \<open>Properties of the command executor\<close>

subsection \<open>Argument substitution\<close>

lemma contains_cons: "contains s p \<Longrightarrow> contains (c # s) p"
  by simp

lemma contains_drop: "contains (drop n s) p \<Longrightarrow> contains s p"
proof (induction s arbitrary: n)
  case Nil
  then show ?case by simp
next
  case (Cons c cs)
  show ?case
  proof (cases n)
    case 0
    with Cons.prems show ?thesis by simp
  next
    case (Suc m)
    with Cons show ?thesis by simp
  qed
qed

lemma contains_pair:
  "contains (c # cs) [a, b] = ((c = a \<and> (\<exists>t. cs = b # t)) \<or> contains cs [a, b])"
  by (cases cs) auto


lemma replace_from_keep_head:
  "x \<noteq> CHR ''$'' \<Longrightarrow>
   replace_from (CHR ''$'' # t) new (x # v) = x # replace_from (CHR ''$'' # t) new v"
  by simp

lemma no_double_dollar_tail:
  "\<not> contains (c # cs) ''$$'' \<Longrightarrow> \<not> contains cs ''$$''"
  by simp

lemma no_double_dollar_head:
  "\<not> contains (CHR ''$'' # cs) ''$$'' \<Longrightarrow> cs = [] \<or> hd cs \<noteq> CHR ''$''"
  by (cases cs) auto

text \<open>
  The pair that joins a kept character to the text behind it: when the kept character is a
  dollar sign and no two dollar signs are adjacent, the text behind it keeps its head.
\<close>

lemma kept_dollar_next:
  assumes nd: "\<not> contains (CHR ''$'' # cs) ''$$''"
    and u: "replace_from (CHR ''$'' # t) [] cs = b # u"
  shows "\<exists>v. cs = b # v"
proof -
  from u have "cs \<noteq> []" by auto
  then obtain x v where cs: "cs = x # v" by (cases cs) auto
  with nd have x: "x \<noteq> CHR ''$''" by auto
  from u cs x have "x = b" by simp
  with cs show ?thesis by simp
qed

text \<open>Removing a token that starts with a dollar sign makes no new pair that starts with one.\<close>

lemma remove_token_pairs:
  assumes "\<not> contains s ''$$''"
    and "contains (replace_from (CHR ''$'' # t) [] s) [CHR ''$'', b]"
  shows "contains s [CHR ''$'', b]"
  using assms
proof (induction "CHR ''$'' # t" "[] :: string" s rule: replace_from.induct)
  case 1
  then show ?case by simp
next
  case (2 c cs)
  define R where "R = replace_from (CHR ''$'' # t) [] cs"
  show ?case
  proof (cases "startswith (c # cs) (CHR ''$'' # t)")
    case True
    have "\<not> contains (drop (length (CHR ''$'' # t)) (c # cs)) ''$$''"
      using "2.prems"(1) contains_drop by blast
    moreover have "contains (replace_from (CHR ''$'' # t) [] (drop (length (CHR ''$'' # t)) (c # cs)))
        [CHR ''$'', b]"
      using "2.prems"(2) True by simp
    ultimately have "contains (drop (length (CHR ''$'' # t)) (c # cs)) [CHR ''$'', b]"
      using "2.hyps"(1) True by blast
    then show ?thesis by (rule contains_drop)
  next
    case False
    have nd: "\<not> contains cs ''$$''"
      using "2.prems"(1) by (rule no_double_dollar_tail)
    have r: "replace_from (CHR ''$'' # t) [] (c # cs) = c # R"
      using False by (auto simp add: R_def)
    have cR: "contains (c # R) [CHR ''$'', b]"
      using "2.prems"(2) unfolding r .
    show ?thesis
    proof (cases "contains R [CHR ''$'', b]")
      case True
      then have "contains cs [CHR ''$'', b]"
        using "2.hyps"(2) False nd unfolding R_def by blast
      then show ?thesis by simp
    next
      case nc: False
      from cR nc obtain u where c: "c = CHR ''$''" and u: "R = b # u"
        unfolding contains_pair by blast
      from kept_dollar_next [of cs t b u] "2.prems"(1) c u
      obtain v where "cs = b # v" unfolding R_def by blast
      with c show ?thesis by (simp add: contains_pair)
    qed
  qed
qed

lemma remove_placeholder_gone:
  assumes "\<not> contains s ''$$''"
  shows "\<not> contains (replace_from [CHR ''$'', d] [] s) [CHR ''$'', d]"
  using assms
proof (induction "[CHR ''$'', d]" "[] :: string" s rule: replace_from.induct)
  case 1
  then show ?case by simp
next
  case (2 c cs)
  define R where "R = replace_from [CHR ''$'', d] [] cs"
  show ?case
  proof (cases "startswith (c # cs) [CHR ''$'', d]")
    case True
    have "\<not> contains (drop (length [CHR ''$'', d]) (c # cs)) ''$$''"
      using "2.prems" contains_drop by blast
    then have "\<not> contains (replace_from [CHR ''$'', d] [] (drop (length [CHR ''$'', d]) (c # cs)))
        [CHR ''$'', d]"
      using "2.hyps"(1) True by blast
    then show ?thesis using True by simp
  next
    case False
    have nd: "\<not> contains cs ''$$''"
      using "2.prems" by (rule no_double_dollar_tail)
    then have ih: "\<not> contains R [CHR ''$'', d]"
      using "2.hyps"(2) False unfolding R_def by blast
    have r: "replace_from [CHR ''$'', d] [] (c # cs) = c # R"
      using False by (auto simp add: R_def)
    show ?thesis
    proof
      assume "contains (replace_from [CHR ''$'', d] [] (c # cs)) [CHR ''$'', d]"
      then have "contains (c # R) [CHR ''$'', d]" unfolding r .
      with ih obtain u where c: "c = CHR ''$''" and u: "R = d # u"
        unfolding contains_pair by blast
      from kept_dollar_next [of cs "[d]" d u] "2.prems" c u
      obtain v where "cs = d # v" unfolding R_def by blast
      with c False show False by simp
    qed
  qed
qed

lemma clean_step:
  assumes "clean D s"
  shows "clean (insert d D) (replace_from [CHR ''$'', d] [] s)"
proof -
  from assms have nd: "\<not> contains s ''$$''" by (simp add: clean_def)
  have "\<not> contains (replace_from [CHR ''$'', d] [] s) ''$$''"
    using remove_token_pairs [OF nd, of "[d]" "CHR ''$''"] nd by auto
  moreover have "\<not> contains (replace_from [CHR ''$'', d] [] s) [CHR ''$'', d]"
    using nd by (rule remove_placeholder_gone)
  moreover have "\<not> contains (replace_from [CHR ''$'', d] [] s) [CHR ''$'', b]" if "b \<in> D" for b
    using remove_token_pairs [OF nd, of "[d]" b] assms that by (auto simp add: clean_def)
  ultimately show ?thesis by (auto simp add: clean_def)
qed

text \<open>
  Claim C4, as amended. For every command body in which no two dollar signs are adjacent,
  argument substitution with an empty argument list gives a text that contains none of the
  placeholders \<open>$1\<close> to \<open>$9\<close>. (The two later stages insert file contents and command output
  as they are, so the prepared prompt can still hold such a token that a file or a command
  brought in.)
\<close>

theorem no_placeholder_after_substitution:
  assumes "\<not> contains body ''$$''" and "ph \<in> set positional"
  shows "\<not> contains (substitute_arguments body []) ph"
proof -
  define t0 where "t0 = replace_from ''$ARGUMENTS'' [] body"
  have "\<not> contains t0 ''$$''"
    using remove_token_pairs [OF assms(1), of "''ARGUMENTS''" "CHR ''$''"] assms(1)
    unfolding t0_def by auto
  then have c0: "clean {} t0" by (simp add: clean_def)
  have "clean {CHR ''9'', CHR ''8'', CHR ''7'', CHR ''6'', CHR ''5'', CHR ''4'', CHR ''3'', CHR ''2'', CHR ''1''}
     (substitute_arguments body [])"
    unfolding substitute_arguments_def positional_def str_replace_def t0_def [symmetric]
    using c0 by (auto intro!: clean_step simp add: t0_def)
  with assms(2) show ?thesis
    by (auto simp add: clean_def positional_def)
qed

text \<open>A body with three placeholders and no arguments: \<open>$2\<close> is gone.\<close>

theorem substitute_arguments_witness:
  "\<not> contains (substitute_arguments ''Fix $1 and $2 in $ARGUMENTS'' []) ''$2''"
  using no_placeholder_after_substitution [of "''Fix $1 and $2 in $ARGUMENTS''" "''$2''"]
  by (simp add: positional_def)

text \<open>
  Claim C4 as stated fails: with no arguments, the prompt prepared from a body that refers
  to a file holding the text \<open>pay $1\<close> contains \<open>$1\<close>. File contents are inserted after the
  substitution and are not substituted.
\<close>

theorem prepared_prompt_keeps_inserted_placeholder:
  "prepare_prompt toy_platform toy_fs ''/proj'' (toy_command ''See @notes.md'') [] []
     = Inr (''See \<newline>--- Content of notes.md ---\<newline>pay $1\<newline>--- End of notes.md ---\<newline>'', [])
   \<and> contains ''See \<newline>--- Content of notes.md ---\<newline>pay $1\<newline>--- End of notes.md ---\<newline>'' ''$1''"
  by (simp add: prepare_prompt_def substitute_arguments_def positional_def str_replace_def
      toy_command_def toy_fs_fields toy_files_def toy_dirs_def replace_reference_def ref_char_def is_space_def)

text \<open>
  Why the amended claim asks for no adjacent dollar signs: each placeholder is removed in one
  scan, and the text around a removed placeholder can close up to a new one.
\<close>

lemma substitute_arguments_double_dollar: "substitute_arguments ''$$11'' [] = ''$1''"
  by (simp add: substitute_arguments_def positional_def str_replace_def)

subsection \<open>Inline commands\<close>

lemma match_inline_other_head: "a \<noteq> CHR ''!'' \<Longrightarrow> match_inline (a # t) = None"
  by (cases t) simp_all

lemma execute_inline_bash_prefix:
  "CHR ''!'' \<notin> set pre \<Longrightarrow>
   execute_inline_bash pf cwd (pre @ s) w =
     (case execute_inline_bash pf cwd s w of (r, w') \<Rightarrow> (pre @ r, w'))"
  by (induction pre) (auto simp add: match_inline_other_head split: prod.splits)

lemma match_inline_token:
  assumes "cmd \<noteq> []" and "CHR 0x60 \<notin> set cmd"
  shows "match_inline (''!`'' @ cmd @ ''`'' @ post) = Some (cmd, post)"
proof -
  have all: "\<forall>x\<in>set cmd. not_backtick x"
    using assms(2) by (auto simp add: not_backtick_def)
  have "takeWhile not_backtick (cmd @ ''`'' @ post) = cmd"
    using all by (simp add: takeWhile_append2 not_backtick_def)
  moreover have "dropWhile not_backtick (cmd @ ''`'' @ post) = ''`'' @ post"
    using all by (simp add: dropWhile_append2 not_backtick_def)
  ultimately show ?thesis
    using assms(1) by simp
qed

lemma execute_and_replace_completed:
  assumes "subprocess_run pf cmd cwd [] 30 w = (Completed rc out err, w1)"
  shows "execute_and_replace pf cwd cmd w =
     (if rc \<noteq> 0 \<and> err \<noteq> [] then strip out @ ''\<newline>[stderr: '' @ strip err @ '']''
      else if strip out \<noteq> [] then strip out else ''[no output]'', w1)"
  using assms by (simp add: execute_and_replace_def Let_def)

text \<open>
  Claim C3, as amended. An inline command token whose subprocess completes is replaced by
  the trimmed standard output; the suffix \<open>[stderr: ...]\<close> with the trimmed standard error,
  on a new line, is appended only when the return code is not 0 and standard error is not
  empty; a replacement that would be empty is \<open>[no output]\<close>. The text before the token (with
  no exclamation mark in it) stays, and the scan goes on behind the token. So on return code
  0 standard error is never appended.
\<close>

theorem inline_command_replacement:
  assumes pre: "CHR ''!'' \<notin> set pre"
    and cmd: "cmd \<noteq> []" "CHR 0x60 \<notin> set cmd"
    and run: "subprocess_run pf cmd cwd [] 30 w = (Completed rc out err, w1)"
    and rest: "execute_inline_bash pf cwd post w1 = (r, w2)"
  shows "execute_inline_bash pf cwd (pre @ ''!`'' @ cmd @ ''`'' @ post) w =
     (pre @ (if rc \<noteq> 0 \<and> err \<noteq> [] then strip out @ ''\<newline>[stderr: '' @ strip err @ '']''
             else if strip out \<noteq> [] then strip out else ''[no output]'') @ r, w2)"
proof -
  have m: "match_inline (''!`'' @ cmd @ ''`'' @ post) = Some (cmd, post)"
    using cmd by (rule match_inline_token)
  have "execute_inline_bash pf cwd (''!`'' @ cmd @ ''`'' @ post) w =
     ((if rc \<noteq> 0 \<and> err \<noteq> [] then strip out @ ''\<newline>[stderr: '' @ strip err @ '']''
       else if strip out \<noteq> [] then strip out else ''[no output]'') @ r, w2)"
  proof -
    have "execute_inline_bash pf cwd (CHR ''!'' # (''`'' @ cmd @ ''`'' @ post)) w =
      (case match_inline (CHR ''!'' # (''`'' @ cmd @ ''`'' @ post)) of
        Some (c, rest) \<Rightarrow>
          (case execute_and_replace pf cwd c w of
             (text, w') \<Rightarrow>
               (case execute_inline_bash pf cwd rest w' of (r, w'') \<Rightarrow> (text @ r, w'')))
      | None \<Rightarrow>
          (case execute_inline_bash pf cwd (''`'' @ cmd @ ''`'' @ post) w of (r, w') \<Rightarrow> (CHR ''!'' # r, w')))"
      by (rule execute_inline_bash.simps(2))
    then show ?thesis
      using m rest execute_and_replace_completed [OF run] by simp
  qed
  then show ?thesis
    using execute_inline_bash_prefix [OF pre, of pf cwd "''!`'' @ cmd @ ''`'' @ post" w] by simp
qed

text \<open>A command that fails with text on standard error and none on standard output.\<close>

theorem inline_command_replacement_witness:
  "execute_inline_bash toy_platform ''/proj'' ''log: !`exit 1` end'' []
     = (''log: \<newline>[stderr: boom] end'', [''exit 1''])"
  using inline_command_replacement [of "''log: ''" "''exit 1''" toy_platform "''/proj''" "[]"
      1 "[]" "''boom\<newline>''" "[''exit 1'']" "'' end''" "'' end''" "[''exit 1'']"]
  by (simp add: toy_platform_def toy_shell_def strip_def is_space_def)

text \<open>
  Claim C3 as stated fails: \<open>make\<close> returns 0 and writes a warning to standard error; the
  token is replaced by the trimmed standard output alone.
\<close>

theorem stderr_dropped_on_success:
  "toy_shell ''make'' = Completed 0 ''built\<newline>'' ''warning: deprecated\<newline>''
   \<and> execute_inline_bash toy_platform ''/proj'' ''!`make`'' [] = (''built'', [''make''])"
  by (simp add: toy_platform_def toy_shell_def execute_and_replace_def strip_def is_space_def
      not_backtick_def)

subsection \<open>File references\<close>

text \<open>
  The parts of claim C8 that hold, for probes that answer. A reference is replaced by the
  marker when the project root has no regular file of that name and the expanded path is
  not a regular file either, and by the note when the file is there and reading it fails.
\<close>

lemma replace_reference_not_found:
  assumes "exists fs (path_join fs root ref) = Inr False"
    and "expanduser fs (path_of fs ref) = Some q"
    and "exists fs q = Inr False \<or> (exists fs q = Inr True \<and> is_file fs q = Inr False)"
  shows "replace_reference fs root ref = Inr (''[File not found: '' @ ref @ '']'')"
  using assms by (auto simp add: replace_reference_def)

lemma replace_reference_not_regular:
  assumes "exists fs (path_join fs root ref) = Inr True"
    and "is_file fs (path_join fs root ref) = Inr False"
  shows "replace_reference fs root ref = Inr (''[File not found: '' @ ref @ '']'')"
  using assms by (simp add: replace_reference_def)

lemma replace_reference_read_error:
  assumes "exists fs (path_join fs root ref) = Inr True"
    and "is_file fs (path_join fs root ref) = Inr True"
    and "read_text fs (path_join fs root ref) = Inl e"
  shows "replace_reference fs root ref = Inr (''[Error reading '' @ ref @ '': '' @ e @ '']'')"
  using assms by (simp add: replace_reference_def)

text \<open>
  The two ways in which the callback raises: \<^verbatim>\<open>expanduser\<close> finds no home directory, or a
  probe of a candidate raises \<^verbatim>\<open>OSError\<close>.
\<close>

lemma replace_reference_raises:
  assumes "exists fs (path_join fs root ref) = Inr False"
    and "expanduser fs (path_of fs ref) = None"
  shows "replace_reference fs root ref = Inl (RuntimeError ''Could not determine home directory.'')"
  using assms by (simp add: replace_reference_def)

lemma replace_reference_probe_raises:
  assumes "exists fs (path_join fs root ref) = Inl e"
  shows "replace_reference fs root ref = Inl (OSError e)"
  using assms by (simp add: replace_reference_def)

lemma file_reference_sealed_raises:
  "resolve_file_references toy_fs ''/proj'' ''see @sealed/plan.md'' =
     Inl (OSError ''[Errno 13] Permission denied'')"
  by (simp add: toy_fs_fields toy_files_def toy_dirs_def replace_reference_def ref_char_def is_space_def)

text \<open>
  Claim C8 fails at a reference that starts with \<open>~user\<close> for a user without a home directory,
  when the project root has no entry of that name: \<^verbatim>\<open>Path.expanduser\<close> raises \<^verbatim>\<open>RuntimeError\<close>
  outside the \<^verbatim>\<open>try\<close> block, and the exception leaves the stage. The probes of the candidates
  stand outside the \<^verbatim>\<open>try\<close> block as well (lemma \<open>file_reference_sealed_raises\<close>). The lemmas
  \<open>replace_reference_not_found\<close> and \<open>replace_reference_read_error\<close> are the parts of the claim
  that hold: the marker for a reference that no candidate resolves, and the note for a file
  that cannot be read.
\<close>

theorem file_reference_unknown_user_raises:
  "resolve_file_references toy_fs ''/proj'' ''ask @~ghost/todo.md'' =
     Inl (RuntimeError ''Could not determine home directory.'')"
  by (simp add: toy_fs_fields toy_files_def toy_dirs_def replace_reference_def ref_char_def is_space_def)

lemma file_reference_missing: 
  "resolve_file_references toy_fs ''/proj'' ''see @missing.txt'' = Inr ''see [File not found: missing.txt]''"
  by (simp add: toy_fs_fields toy_files_def toy_dirs_def replace_reference_def ref_char_def is_space_def)

subsection \<open>The pipeline\<close>




section \<open>Properties of the loader\<close>

subsection \<open>Front matter\<close>

lemma startswith_split: "startswith s p \<Longrightarrow> \<exists>rest. s = p @ rest"
  by (induction s p rule: startswith.induct) simp_all

lemma newline_splits_shape:
  "r \<in> set (newline_splits s) \<Longrightarrow> \<exists>ws. s = ws @ CHR 0x0A # r \<and> (\<forall>c\<in>set ws. is_space c)"
proof (induction s)
  case Nil
  then show ?case by simp
next
  case (Cons c cs)
  show ?case
  proof (cases "r = cs \<and> c = CHR 0x0A")
    case True
    then have "c # cs = [] @ CHR 0x0A # r \<and> (\<forall>c\<in>set []. is_space c)" by simp
    then show ?thesis by blast
  next
    case False
    with Cons.prems have sp: "is_space c" and "r \<in> set (newline_splits cs)"
      by (auto simp add: is_space_def split: if_splits)
    with Cons.IH obtain ws where "cs = ws @ CHR 0x0A # r" and "\<forall>c\<in>set ws. is_space c"
      by blast
    with sp have "c # cs = (c # ws) @ CHR 0x0A # r \<and> (\<forall>x\<in>set (c # ws). is_space x)"
      by simp
    then show ?thesis by blast
  qed
qed

lemma closing_at_shape:
  assumes "closing_at s = Some body"
  shows "\<exists>ws. s = ''\<newline>---'' @ ws @ CHR 0x0A # body \<and> (\<forall>c\<in>set ws. is_space c)"
proof -
  from assms have sw: "startswith s ''\<newline>---''"
    and b: "body \<in> set (newline_splits (drop 4 s))"
    by (auto simp add: closing_at_def split: if_splits list.splits)
  from startswith_split [OF sw] obtain rest where s: "s = ''\<newline>---'' @ rest" ..
  then have "drop 4 s = rest" by simp
  with b obtain ws where "rest = ws @ CHR 0x0A # body" and ws: "\<forall>c\<in>set ws. is_space c"
    using newline_splits_shape by blast
  with s show ?thesis by blast
qed

lemma find_closing_shape:
  "find_closing s = Some (header, body) \<Longrightarrow>
   \<exists>ws. s = header @ ''\<newline>---'' @ ws @ CHR 0x0A # body \<and> (\<forall>c\<in>set ws. is_space c)"
proof (induction s arbitrary: header)
  case Nil
  then show ?case by simp
next
  case (Cons c cs)
  show ?case
  proof (cases "closing_at (c # cs)")
    case (Some b)
    with Cons.prems have "header = []" "b = body" by simp_all
    with closing_at_shape [OF Some] show ?thesis by simp
  next
    case None
    with Cons.prems obtain h where "find_closing cs = Some (h, body)" and "header = c # h"
      by (auto split: option.splits)
    with Cons.IH [of h] show ?thesis by auto
  qed
qed

lemma first_match_member:
  "first_match rs = Some m \<Longrightarrow> \<exists>r\<in>set rs. find_closing r = Some m"
  by (induction rs) (auto split: option.splits)

text \<open>
  A match has the shape of the pattern: three dashes, white space up to a newline, the
  header, a newline and three dashes, white space up to a newline, the body.
\<close>

lemma match_frontmatter_shape:
  assumes "match_frontmatter text = Some (header, body)"
  shows "\<exists>ws1 ws2. text = ''---'' @ ws1 @ CHR 0x0A # header @ ''\<newline>---'' @ ws2 @ CHR 0x0A # body
           \<and> (\<forall>c\<in>set (ws1 @ ws2). is_space c)"
proof -
  from assms have sw: "startswith text ''---''"
    and fm: "first_match (rev (newline_splits (drop 3 text))) = Some (header, body)"
    by (auto simp add: match_frontmatter_def split: if_splits)
  from startswith_split [OF sw] obtain rest where t: "text = ''---'' @ rest" ..
  then have "drop 3 text = rest" by simp
  with fm obtain r where r: "r \<in> set (newline_splits rest)"
    and f: "find_closing r = Some (header, body)"
    using first_match_member by fastforce
  from newline_splits_shape [OF r] obtain ws1
    where 1: "rest = ws1 @ CHR 0x0A # r" and w1: "\<forall>c\<in>set ws1. is_space c"
    by blast
  from find_closing_shape [OF f] obtain ws2
    where 2: "r = header @ ''\<newline>---'' @ ws2 @ CHR 0x0A # body" and w2: "\<forall>c\<in>set ws2. is_space c"
    by blast
  have "text = ''---'' @ ws1 @ CHR 0x0A # header @ ''\<newline>---'' @ ws2 @ CHR 0x0A # body"
    unfolding t 1 2 ..
  with w1 w2 show ?thesis by auto
qed

text \<open>Without a delimiter line at its start a document has no front matter.\<close>

lemma newline_splits_delimiter:
  "newline_splits s \<noteq> [] \<Longrightarrow>
   startswith (dropWhile (\<lambda>c. is_space c \<and> c \<noteq> CHR 0x0A) s) ''\<newline>''"
  by (induction s) (auto split: if_splits)

lemma match_frontmatter_needs_delimiter:
  assumes "\<not> begins_with_delimiter_line text"
  shows "match_frontmatter text = None"
proof (cases "startswith text ''---''")
  case False
  then show ?thesis by (simp add: match_frontmatter_def)
next
  case True
  with assms have "newline_splits (drop 3 text) = []"
    using newline_splits_delimiter [of "drop 3 text"]
    unfolding begins_with_delimiter_line_def by blast
  then show ?thesis by (simp add: match_frontmatter_def)
qed

text \<open>
  The part of claim C7 that holds. For a document that does not begin with a delimiter line,
  and for a document whose header block \<^verbatim>\<open>yaml.safe_load\<close> rejects with a \<^verbatim>\<open>YAMLError\<close>,
  \<open>parse_frontmatter\<close> returns the empty header and the whole document.
\<close>

lemma parse_frontmatter_fallback:
  "(\<not> begins_with_delimiter_line text \<longrightarrow> parse_frontmatter cd text = Inr (YMap [], text))
   \<and> (match_frontmatter text = Some (header, body) \<longrightarrow> yaml_safe_load cd header = YAMLError e
        \<longrightarrow> parse_frontmatter cd text = Inr (YMap [], text))"
proof (intro conjI impI)
  assume "\<not> begins_with_delimiter_line text"
  then have "match_frontmatter text = None"
    by (rule match_frontmatter_needs_delimiter)
  then show "parse_frontmatter cd text = Inr (YMap [], text)"
    by (simp add: parse_frontmatter_def)
next
  assume "match_frontmatter text = Some (header, body)"
    and "yaml_safe_load cd header = YAMLError e"
  then show "parse_frontmatter cd text = Inr (YMap [], text)"
    by (simp add: parse_frontmatter_def)
qed

text \<open>A document without front matter, and one whose header is not YAML.\<close>

lemma parse_frontmatter_fallback_example:
  "parse_frontmatter toy_codecs ''# Title\<newline>---\<newline>'' = Inr (YMap [], ''# Title\<newline>---\<newline>'')
   \<and> match_frontmatter ''---\<newline>a: [1\<newline>---\<newline>body'' = Some (''a: [1'', ''body'')
   \<and> parse_frontmatter toy_codecs ''---\<newline>a: [1\<newline>---\<newline>body''
       = Inr (YMap [], ''---\<newline>a: [1\<newline>---\<newline>body'')"
proof -
  have m: "match_frontmatter ''---\<newline>a: [1\<newline>---\<newline>body'' = Some (''a: [1'', ''body'')"
    by (simp add: match_frontmatter_def closing_at_def is_space_def)
  have d: "\<not> begins_with_delimiter_line ''# Title\<newline>---\<newline>''"
    by (simp add: begins_with_delimiter_line_def)
  have y: "yaml_safe_load toy_codecs ''a: [1'' = YAMLError ''while parsing a flow sequence''"
    by (simp add: toy_codecs_def)
  show ?thesis
    using parse_frontmatter_fallback [of "''# Title\<newline>---\<newline>''" toy_codecs "[]" "[]" "[]"]
      parse_frontmatter_fallback [of "''---\<newline>a: [1\<newline>---\<newline>body''" toy_codecs "''a: [1''" "''body''"
        "''while parsing a flow sequence''"]
      m d y
    by simp
qed

text \<open>
  Any other exception of \<^verbatim>\<open>yaml.safe_load\<close> leaves \<open>parse_frontmatter\<close>: the handler is for
  \<^verbatim>\<open>yaml.YAMLError\<close> only.
\<close>

lemma parse_frontmatter_raises:
  assumes "match_frontmatter text = Some (header, body)"
    and "yaml_safe_load cd header = LoadFailure e"
  shows "parse_frontmatter cd text = Inl e"
  using assms by (simp add: parse_frontmatter_def)

text \<open>
  Claim C7 fails at a document whose header block is delimited and fails structured parsing
  with an exception that is not a \<^verbatim>\<open>yaml.YAMLError\<close>: the header \<open>date: 2001-99-99\<close> is read as
  a date, building the date raises \<^verbatim>\<open>ValueError\<close>, and \<open>parse_frontmatter\<close> raises it to the
  caller instead of returning the empty header and the whole text.
\<close>

theorem parse_frontmatter_raises_value_error:
  "parse_frontmatter toy_codecs ''---\<newline>date: 2001-99-99\<newline>---\<newline>body''
     = Inl (ValueError ''month must be in 1..12'')"
  by (simp add: parse_frontmatter_def match_frontmatter_def closing_at_def is_space_def
      toy_codecs_def)

subsection \<open>Tool lists\<close>

lemma dropWhile_snoc_kept:
  "\<not> P x \<Longrightarrow> dropWhile P (zs @ [x]) = dropWhile P zs @ [x]"
  by (simp add: dropWhile_append)

lemma strip_head: "dropWhile is_space (strip s) = strip s"
proof (cases "dropWhile is_space s")
  case Nil
  show ?thesis unfolding strip_def Nil by simp
next
  case (Cons x a)
  then have nx: "\<not> is_space x"
    using hd_dropWhile [of is_space s] by auto
  have "strip s = rev (dropWhile is_space (rev a @ [x]))"
    using Cons by (simp add: strip_def)
  also have "\<dots> = x # rev (dropWhile is_space (rev a))"
    using nx by (simp add: dropWhile_snoc_kept)
  finally show ?thesis using nx by simp
qed

lemma strip_idem: "strip (strip s) = strip s"
proof -
  have "dropWhile is_space (rev (strip s)) = rev (strip s)"
    by (simp add: strip_def)
  then show ?thesis
    by (simp add: strip_def [of "strip s"] strip_head)
qed

text \<open>What holds of every shape: each entry is trimmed.\<close>

lemma tool_item_trimmed:
  assumes "t \<in> set (case item of YStr s \<Rightarrow> [strip s]
                        | YSeq sub \<Rightarrow> map (\<lambda>i. strip (str_value cd i)) sub
                        | _ \<Rightarrow> [])"
  shows "strip t = t"
  using assms by (cases item) (auto simp add: strip_idem)

lemma parse_allowed_tools_trimmed:
  assumes "t \<in> set (parse_allowed_tools cd v)"
  shows "strip t = t"
proof (cases v)
  case (YStr s)
  with assms show ?thesis by (auto simp add: parse_allowed_tools_def strip_idem)
next
  case (YSeq items)
  with assms obtain item where "item \<in> set items"
    and "t \<in> set (case item of YStr s \<Rightarrow> [strip s]
                        | YSeq sub \<Rightarrow> map (\<lambda>i. strip (str_value cd i)) sub
                        | _ \<Rightarrow> [])"
    by (auto simp add: parse_allowed_tools_def)
  then show ?thesis using tool_item_trimmed by blast
qed (use assms in \<open>simp_all add: parse_allowed_tools_def\<close>)

text \<open>What holds of the string shape: no entry is empty.\<close>

lemma parse_allowed_tools_string_nonempty:
  "t \<in> set (parse_allowed_tools cd (YStr s)) \<Longrightarrow> t \<noteq> []"
  by (auto simp add: parse_allowed_tools_def)

text \<open>
  Claim C5 fails on the list shapes: the branch for a string drops the entries that are
  empty after trimming, the branches for a list and for a nested list keep them.
\<close>

theorem parse_allowed_tools_keeps_empty_entries:
  "parse_allowed_tools cd (YSeq [YStr ''Bash'', YStr ''  '', YStr '' Read '']) = [''Bash'', [], ''Read'']
   \<and> parse_allowed_tools cd (YSeq [YSeq [YStr ''Edit'', YStr []]]) = [''Edit'', []]
   \<and> parse_allowed_tools cd (YStr ''Bash,  , Read '') = [''Bash'', ''Read'']"
  by (simp add: parse_allowed_tools_def str_value_def strip_def is_space_def)

subsection \<open>Load order: the commands a loading function writes\<close>

lemma writes_commands_id: "writes_commands scp (\<lambda>reg. reg)"
  unfolding writes_commands_def by (rule exI [of _ Map.empty]) simp

lemma writes_commands_same:
  assumes "\<And>reg. commands (f reg) = commands reg"
  shows "writes_commands scp f"
  unfolding writes_commands_def using assms by (intro exI [of _ Map.empty]) simp

lemma writes_commands_comp:
  assumes "writes_commands scp f" and "writes_commands scp g"
  shows "writes_commands scp (\<lambda>reg. g (f reg))"
proof -
  from assms(1) obtain mf where f: "\<And>reg. commands (f reg) = commands reg ++ mf"
    and sf: "\<And>n c. mf n = Some c \<Longrightarrow> scope c = scp"
    unfolding writes_commands_def by blast
  from assms(2) obtain mg where g: "\<And>reg. commands (g reg) = commands reg ++ mg"
    and sg: "\<And>n c. mg n = Some c \<Longrightarrow> scope c = scp"
    unfolding writes_commands_def by blast
  have "commands (g (f reg)) = commands reg ++ (mf ++ mg)" for reg
    by (simp add: f g)
  moreover have "scope c = scp" if "(mf ++ mg) n = Some c" for n c
    using that sf sg by (auto simp add: map_add_Some_iff)
  ultimately show ?thesis
    unfolding writes_commands_def by blast
qed

lemma writes_commands_fold:
  assumes "\<And>x. x \<in> set xs \<Longrightarrow> writes_commands scp (f x)"
  shows "writes_commands scp (fold f xs)"
  using assms
proof (induction xs)
  case Nil
  show ?case using writes_commands_id [of scp] by (simp add: id_def)
next
  case (Cons x xs)
  have "writes_commands scp (f x)"
    using Cons.prems by simp
  moreover have "writes_commands scp (fold f xs)"
    using Cons by simp
  ultimately have "writes_commands scp (\<lambda>reg. fold f xs (f x reg))"
    by (rule writes_commands_comp)
  then show ?case by (simp add: comp_def)
qed

lemma build_command_scope:
  "build_command fs cd d scp file = Some c \<Longrightarrow> scope c = scp"
  by (auto simp add: build_command_def Let_def
      split: sum.splits prod.splits yaml.splits)

lemma writes_commands_load_command_file:
  "writes_commands scp (load_command_file fs cd d scp file)"
proof (cases "build_command fs cd d scp file")
  case None
  then have "load_command_file fs cd d scp file = (\<lambda>reg. reg)"
    by (simp add: load_command_file_def fun_eq_iff)
  then show ?thesis by (simp add: writes_commands_id)
next
  case (Some c)
  have "commands (load_command_file fs cd d scp file reg) = commands reg ++ [name c \<mapsto> c]" for reg
    using Some by (simp add: load_command_file_def)
  moreover have "scope c' = scp" if "[name c \<mapsto> c] n = Some c'" for n c'
    using that build_command_scope [OF Some] by (auto split: if_splits)
  ultimately show ?thesis
    unfolding writes_commands_def by blast
qed

subsection \<open>Load order: steps\<close>

lemma step_raise: "step_writes_commands scp (raise_step e)"
  unfolding step_writes_commands_def
  by (intro exI [of _ "Exception e"] exI [of _ "\<lambda>r. r"]) (simp add: raise_step_def writes_commands_id)

lemma step_skip: "step_writes_commands scp skip_step"
  unfolding step_writes_commands_def
  by (intro exI [of _ Normal] exI [of _ "\<lambda>r. r"]) (simp add: skip_step_def writes_commands_id)

lemma step_do: "writes_commands scp f \<Longrightarrow> step_writes_commands scp (do_step f)"
  unfolding step_writes_commands_def
  by (intro exI [of _ Normal] exI [of _ f]) (simp add: do_step_def)

lemma step_then:
  assumes "step_writes_commands scp s1" and "step_writes_commands scp s2"
  shows "step_writes_commands scp (then_step s1 s2)"
proof -
  from assms(1) obtain b1 f1 where s1: "\<forall>reg. s1 reg = (b1, f1 reg)"
    and w1: "writes_commands scp f1"
    unfolding step_writes_commands_def by blast
  from assms(2) obtain b2 f2 where s2: "\<forall>reg. s2 reg = (b2, f2 reg)"
    and w2: "writes_commands scp f2"
    unfolding step_writes_commands_def by blast
  show ?thesis
  proof (cases b1)
    case Normal
    with s1 s2 have "\<forall>reg. then_step s1 s2 reg = (b2, f2 (f1 reg))"
      by (simp add: then_step_def)
    moreover have "writes_commands scp (\<lambda>reg. f2 (f1 reg))"
      using w1 w2 by (rule writes_commands_comp)
    ultimately show ?thesis
      unfolding step_writes_commands_def
      by (intro exI [of _ b2] exI [of _ "\<lambda>reg. f2 (f1 reg)"]) simp
  next
    case (Exception e)
    with s1 have "\<forall>reg. then_step s1 s2 reg = (Exception e, f1 reg)"
      by (simp add: then_step_def)
    with w1 show ?thesis
      unfolding step_writes_commands_def
      by (intro exI [of _ "Exception e"] exI [of _ f1]) simp
  qed
qed

lemma step_probe:
  assumes "step_writes_commands scp s1" and "step_writes_commands scp s2"
  shows "step_writes_commands scp (probe_step b s1 s2)"
  using assms by (cases b) (simp_all add: probe_step_def step_raise)

lemma step_catch:
  assumes "step_writes_commands scp s"
  shows "step_writes_commands scp (catch_step s)"
proof -
  from assms obtain b f where s: "\<forall>reg. s reg = (b, f reg)" and w: "writes_commands scp f"
    unfolding step_writes_commands_def by blast
  from s have "\<forall>reg. catch_step s reg = (Normal, f reg)"
    by (simp add: catch_step_def)
  with w show ?thesis
    unfolding step_writes_commands_def
    by (intro exI [of _ Normal] exI [of _ f]) simp
qed

lemma step_for_each:
  assumes "\<And>x. x \<in> set xs \<Longrightarrow> step_writes_commands scp (f x)"
  shows "step_writes_commands scp (for_each f xs)"
  using assms by (induction xs) (simp_all add: step_skip step_then)

text \<open>A step that writes commands of two scopes writes none.\<close>

lemma step_keeps_commands:
  fixes s :: "'p step"
  assumes "step_writes_commands ''project'' s" and "step_writes_commands ''plugin'' s"
  shows "commands (snd (s reg)) = commands reg"
proof -
  from assms(1) obtain b1 f1 m1 where s1: "\<And>r. s r = (b1, f1 r)"
    and c1: "\<And>r. commands (f1 r) = commands r ++ m1"
    and p1: "\<And>n c. m1 n = Some c \<Longrightarrow> scope c = ''project''"
    unfolding step_writes_commands_def writes_commands_def by blast
  from assms(2) obtain b2 f2 m2 where s2: "\<And>r. s r = (b2, f2 r)"
    and c2: "\<And>r. commands (f2 r) = commands r ++ m2"
    and p2: "\<And>n c. m2 n = Some c \<Longrightarrow> scope c = ''plugin''"
    unfolding step_writes_commands_def writes_commands_def by blast
  have f: "f1 r = f2 r" for r
    using s1 [of r] s2 [of r] by simp
  have "m1 = commands (f1 (empty_registry :: 'p BridgeRegistry))"
    by (simp add: c1 empty_registry_def)
  also have "\<dots> = m2"
    by (simp add: f c2 empty_registry_def)
  finally have m: "m1 = m2" .
  have "m1 n = None" for n
  proof (cases "m1 n")
    case None
    then show ?thesis .
  next
    case (Some c)
    with p1 [of n c] p2 [of n c] m show ?thesis by simp
  qed
  then have "m1 = Map.empty"
    by (simp add: fun_eq_iff)
  then show ?thesis
    by (simp add: s1 c1)
qed

subsection \<open>Load order: the loading methods\<close>

lemma step_load_commands:
  "step_writes_commands scp (load_commands fs cd d scp)"
  unfolding load_commands_def
  by (intro step_probe step_do step_skip writes_commands_fold writes_commands_load_command_file)

lemma commands_load_subagent_file:
  "commands (load_subagent_file fs cd scp file reg) = commands reg"
  by (simp add: load_subagent_file_def split: option.splits)

lemma commands_fold_load_subagent_file:
  "commands (fold (load_subagent_file fs cd scp) xs reg) = commands reg"
  by (induction xs arbitrary: reg) (simp_all add: commands_load_subagent_file)

lemma step_load_subagents:
  "step_writes_commands scp' (load_subagents fs cd d scp)"
  unfolding load_subagents_def
proof (intro step_probe step_do step_skip)
  show "writes_commands scp' (fold (load_subagent_file fs cd scp) (glob_md fs d))"
    by (rule writes_commands_same) (rule commands_fold_load_subagent_file)
qed

lemma step_load_skill_dir:
  "step_writes_commands scp (load_skill_dir fs cd d)"
  unfolding load_skill_dir_def
proof (intro step_probe step_do step_skip)
  show "writes_commands scp (\<lambda>reg. case build_skill fs cd d of
           None \<Rightarrow> reg
         | Some s \<Rightarrow> reg\<lparr>skills := (skills reg)(norm_key (sk_name s) \<mapsto> s)\<rparr>)"
    by (rule writes_commands_same) (simp split: option.splits)
qed

lemma step_load_skills:
  "step_writes_commands scp (load_skills fs cd d)"
proof (cases "iterdir fs d")
  case (Inl e)
  then show ?thesis
    unfolding load_skills_def by (simp add: step_probe step_raise step_skip)
next
  case (Inr dirs)
  then show ?thesis
    unfolding load_skills_def
    by (simp add: step_probe step_skip step_for_each step_load_skill_dir)
qed

lemma commands_load_subagents:
  "commands (snd (load_subagents fs cd d scp reg)) = commands reg"
  by (rule step_keeps_commands [OF step_load_subagents step_load_subagents])

lemma commands_load_skills:
  "commands (snd (load_skills fs cd d reg)) = commands reg"
  by (rule step_keeps_commands [OF step_load_skills step_load_skills])

subsection \<open>Load order: the steps of a plugin\<close>

lemma step_load_plugin_commands:
  "step_writes_commands ''plugin'' (load_plugin_commands fs cd d m)"
proof (cases "join_value fs d (dict_get m (YStr ''commands'') (YStr ''commands''))")
  case None
  then show ?thesis by (simp add: load_plugin_commands_def step_raise)
next
  case (Some commands_dir)
  then show ?thesis
    by (simp add: load_plugin_commands_def step_then step_probe step_skip step_load_commands)
qed

lemma step_load_plugin_agents:
  "step_writes_commands scp (load_plugin_agents fs cd d m)"
proof (cases "join_value fs d (dict_get m (YStr ''agents'') (YStr ''agents''))")
  case None
  then show ?thesis by (simp add: load_plugin_agents_def step_raise)
next
  case (Some agents_dir)
  then show ?thesis
    by (simp add: load_plugin_agents_def step_then step_probe step_skip step_load_subagents)
qed

lemma step_load_plugin_skills:
  "step_writes_commands scp (load_plugin_skills fs cd d m)"
proof (cases "join_value fs d (dict_get m (YStr ''skills'') (YStr ''skills''))")
  case None
  then show ?thesis by (simp add: load_plugin_skills_def step_raise)
next
  case (Some skills_dir)
  then show ?thesis
    by (simp add: load_plugin_skills_def step_then step_probe step_skip step_load_skills)
qed

lemma commands_merge_hooks: "commands (merge_hooks hs reg) = commands reg"
  unfolding merge_hooks_def
  by (induction hs arbitrary: reg) (simp_all add: merge_hook_def Let_def split: prod.splits)

lemma step_register_plugin:
  "step_writes_commands scp (register_plugin fs cd d m)"
proof (cases "read_plugin_hooks fs cd d")
  case None
  then show ?thesis by (simp add: register_plugin_def Let_def step_raise)
next
  case (Some hs)
  have merge: "step_writes_commands scp
      (do_step (case hs of None \<Rightarrow> (\<lambda>reg. reg) | Some h \<Rightarrow> merge_hooks h))"
    by (cases hs) (auto intro!: step_do writes_commands_same simp add: commands_merge_hooks)
  show ?thesis
  proof (cases "read_plugin_mcp fs cd d")
    case None
    have "step_writes_commands scp
        (then_step (do_step (case hs of None \<Rightarrow> (\<lambda>reg. reg) | Some h \<Rightarrow> merge_hooks h))
           (raise_step (OtherError ''.mcp.json'')))"
      using merge step_raise by (rule step_then)
    with Some None show ?thesis
      by (simp add: register_plugin_def Let_def)
  next
    case mcp: (Some mcp)
    have last: "step_writes_commands scp
        (do_step (\<lambda>reg. reg\<lparr>plugins := (plugins reg)(k \<mapsto> p)\<rparr>))" for k p
      by (intro step_do writes_commands_same) simp
    show ?thesis
    proof (cases "hashable (dict_get m (YStr ''name'') (YStr (path_name fs d)))")
      case True
      with Some mcp step_then [OF merge last]
      show ?thesis
        by (simp add: register_plugin_def Let_def)
    next
      case False
      with Some mcp step_then [OF merge step_raise]
      show ?thesis
        by (simp add: register_plugin_def Let_def)
    qed
  qed
qed

lemma step_plugin_steps:
  "step_writes_commands ''plugin'' (plugin_steps fs cd d mf)"
proof -
  have body: "step_writes_commands ''plugin''
      (then_step (load_plugin_commands fs cd d m)
      (then_step (load_plugin_agents fs cd d m)
      (then_step (load_plugin_skills fs cd d m) (register_plugin fs cd d m))))" for m
    by (intro step_then step_load_plugin_commands step_load_plugin_agents
        step_load_plugin_skills step_register_plugin)
  show ?thesis
    unfolding plugin_steps_def
    by (simp add: body step_raise split: sum.splits option.splits yaml.splits)
qed

lemma step_load_plugin:
  "step_writes_commands ''plugin'' (load_plugin fs cd d)"
  unfolding load_plugin_def
  by (simp add: step_raise step_skip step_catch step_plugin_steps
      split: sum.splits option.splits)

lemma step_load_plugin_dirs:
  "step_writes_commands ''plugin'' (load_plugin_dirs fs cd d)"
proof (cases "iterdir fs d")
  case (Inl e)
  then show ?thesis
    unfolding load_plugin_dirs_def by (simp add: step_probe step_raise step_skip)
next
  case (Inr dirs)
  then show ?thesis
    unfolding load_plugin_dirs_def
    by (simp add: step_probe step_skip step_for_each step_load_plugin)
qed

lemma step_load_plugins:
  "step_writes_commands ''plugin'' (load_plugins fs cd root bridge_dir)"
  unfolding load_plugins_def
  by (intro step_then step_probe step_skip step_load_plugin_dirs step_load_plugin)

text \<open>
  Claim C6. In every load pass that returns, the commands of the registry are the commands
  the project's directory gave, overlaid with the commands the plugin pass writes; and the
  plugin pass writes the same commands whatever registry it starts from. So a name that the
  plugins define is mapped to the record the plugin pass alone gives it, of scope \<open>plugin\<close>,
  whole, whatever the project had defined for that name.
\<close>

theorem plugin_command_wins:
  assumes "load_all fs cd root bridge_dir reg0 = Inr reg"
  shows "\<exists>reg1 regP.
       load_commands fs cd (path_join fs (path_join fs root ''.claude'') ''commands'') ''project''
         reg0 = (Normal, reg1)
     \<and> load_plugins fs cd root bridge_dir empty_registry = (Normal, regP)
     \<and> commands reg = commands reg1 ++ commands regP
     \<and> (\<forall>n c. commands regP n = Some c \<longrightarrow> scope c = ''plugin'' \<and> commands reg n = Some c)"
proof -
  from assms obtain reg1 reg2 reg3 where
    cm: "load_commands fs cd (path_join fs (path_join fs root ''.claude'') ''commands'') ''project''
          reg0 = (Normal, reg1)"
    and ag: "load_subagents fs cd (path_join fs (path_join fs root ''.claude'') ''agents'')
          ''project'' reg1 = (Normal, reg2)"
    and sk: "load_skills fs cd (path_join fs (path_join fs root ''.claude'') ''skills'') reg2
          = (Normal, reg3)"
    and pl: "load_plugins fs cd root bridge_dir reg3 = (Normal, reg)"
    by (auto simp add: load_all_def Let_def then_step_def split: prod.splits outcome.splits)
  have "commands reg2 = commands reg1"
    using commands_load_subagents
      [of fs cd "path_join fs (path_join fs root ''.claude'') ''agents''" "''project''" reg1] ag
    by simp
  moreover have "commands reg3 = commands reg2"
    using commands_load_skills
      [of fs cd "path_join fs (path_join fs root ''.claude'') ''skills''" reg2] sk
    by simp
  ultimately have c3: "commands reg3 = commands reg1"
    by simp
  from step_load_plugins [of fs cd root bridge_dir]
  obtain b f where f: "\<forall>r. load_plugins fs cd root bridge_dir r = (b, f r)"
    and w: "writes_commands ''plugin'' f"
    unfolding step_writes_commands_def by blast
  from f pl have b: "b = Normal" and regf: "reg = f reg3"
    by simp_all
  from w obtain m where m: "\<And>r. commands (f r) = commands r ++ m"
    and sm: "\<And>n c. m n = Some c \<Longrightarrow> scope c = ''plugin''"
    unfolding writes_commands_def by blast
  have cp: "commands (f empty_registry) = m"
    by (simp add: m empty_registry_def)
  have "load_plugins fs cd root bridge_dir empty_registry = (Normal, f empty_registry)"
    using f b by simp
  moreover have "commands reg = commands reg1 ++ commands (f empty_registry)"
    unfolding cp by (simp add: regf m c3)
  moreover have "scope c = ''plugin'' \<and> commands reg n = Some c"
    if "commands (f empty_registry) n = Some c" for n c
    using that sm unfolding cp by (simp add: regf m)
  ultimately show ?thesis
    using cm by blast
qed

lemma toy_project_commands:
  "\<exists>reg1. load_commands toy_fs toy_codecs ''/proj/.claude/commands'' ''project'' empty_registry
       = (Normal, reg1)
     \<and> commands reg1 ''foo'' = Some toy_project_foo"
  by (simp add: load_commands_def probe_step_def do_step_def
      load_command_file_def build_command_def parse_frontmatter_def
      match_frontmatter_def parse_allowed_tools_def parse_hooks_from_frontmatter_def dict_get_def
      toy_fs_fields toy_files_def toy_dirs_def toy_codecs_def toy_project_foo_def
      empty_registry_def)

lemma toy_plugin_commands:
  "\<exists>regP. load_plugins toy_fs toy_codecs ''/proj'' ''/bridge'' empty_registry = (Normal, regP)
     \<and> commands regP ''foo'' = Some toy_plugin_foo"
  by (simp add: load_plugins_def load_plugin_dirs_def load_plugin_def manifest_file_def
      plugin_steps_def catch_step_def probe_step_def skip_step_def
      then_step_def do_step_def raise_step_def load_plugin_commands_def
      load_plugin_agents_def load_plugin_skills_def register_plugin_def read_plugin_hooks_def
      read_plugin_mcp_def join_value_def load_subagents_def load_skills_def
      load_commands_def load_command_file_def build_command_def parse_frontmatter_def
      match_frontmatter_def closing_at_def is_space_def parse_allowed_tools_def
      parse_hooks_from_frontmatter_def dict_get_def
      toy_fs_fields toy_files_def toy_dirs_def toy_codecs_def toy_plugin_foo_def
      empty_registry_def)

lemma toy_load_plugins_returns:
  "fst (load_plugins toy_fs toy_codecs ''/proj'' ''/bridge'' reg) = Normal"
  by (simp add: load_plugins_def load_plugin_dirs_def load_plugin_def manifest_file_def
      catch_step_def probe_step_def skip_step_def then_step_def
      toy_fs_fields toy_files_def toy_dirs_def)

lemma toy_load_all_returns:
  "\<exists>reg. load_all toy_fs toy_codecs ''/proj'' ''/bridge'' empty_registry = Inr reg"
proof -
  have c: "fst (load_commands toy_fs toy_codecs ''/proj/.claude/commands'' ''project'' reg)
      = Normal" for reg
    by (simp add: load_commands_def probe_step_def do_step_def toy_fs_fields toy_files_def
        toy_dirs_def)
  have a: "load_subagents toy_fs toy_codecs ''/proj/.claude/agents'' ''project'' reg
      = (Normal, reg)" for reg
    by (simp add: load_subagents_def probe_step_def skip_step_def toy_fs_fields toy_files_def
        toy_dirs_def)
  have s: "load_skills toy_fs toy_codecs ''/proj/.claude/skills'' reg = (Normal, reg)" for reg
    by (simp add: load_skills_def probe_step_def skip_step_def toy_fs_fields toy_files_def
        toy_dirs_def)
  obtain reg1 where c1: "load_commands toy_fs toy_codecs ''/proj/.claude/commands'' ''project''
      empty_registry = (Normal, reg1)"
    using c [of empty_registry] by (metis prod.collapse)
  obtain reg4 where p: "load_plugins toy_fs toy_codecs ''/proj'' ''/bridge'' reg1
      = (Normal, reg4)"
    using toy_load_plugins_returns [of reg1] by (metis prod.collapse)
  have "load_all toy_fs toy_codecs ''/proj'' ''/bridge'' empty_registry = Inr reg4"
    by (simp add: load_all_def then_step_def toy_fs_fields(1) c1 a s p)
  then show ?thesis ..
qed

text \<open>
  The toy project and its plugin \<open>tools\<close> both define \<open>foo\<close>: the registry holds the plugin's.
\<close>

theorem plugin_command_wins_witness:
  "\<exists>reg reg1. load_all toy_fs toy_codecs ''/proj'' ''/bridge'' empty_registry = Inr reg
     \<and> load_commands toy_fs toy_codecs ''/proj/.claude/commands'' ''project'' empty_registry
         = (Normal, reg1)
     \<and> commands reg1 ''foo'' = Some toy_project_foo
     \<and> commands reg ''foo'' = Some toy_plugin_foo
     \<and> scope toy_plugin_foo = ''plugin''"
proof -
  from toy_load_all_returns obtain reg
    where r: "load_all toy_fs toy_codecs ''/proj'' ''/bridge'' empty_registry = Inr reg" ..
  from plugin_command_wins [OF r] obtain regP
    where p: "load_plugins toy_fs toy_codecs ''/proj'' ''/bridge'' empty_registry = (Normal, regP)"
      and w: "\<forall>n c. commands regP n = Some c \<longrightarrow> scope c = ''plugin'' \<and> commands reg n = Some c"
    by blast
  from toy_plugin_commands p have "commands regP ''foo'' = Some toy_plugin_foo"
    by auto
  with w have "scope toy_plugin_foo = ''plugin'' \<and> commands reg ''foo'' = Some toy_plugin_foo"
    by blast
  with r toy_project_commands show ?thesis
    by blast
qed

end
